theory Spec2Isabelle
  imports Main "HOL-Library.AList" "HOL-Library.Multiset"
begin

section \<open>The SpaceKeeper of \<^verbatim>\<open>poc/engine/spacekeeper/capacity/capacity.go\<close>\<close>

text \<open>
  The Go code keeps \<^verbatim>\<open>*WorkSpace\<close> pointers in five index maps, in
  \<^verbatim>\<open>workSpaceList\<close> and in the plotter queue, and mutates the objects through
  any of them. The model keeps the objects in a store (\<open>heap\<close>, from addresses to
  objects); every container holds addresses. Go maps are association lists, ranged over in
  list order. Go's \<^verbatim>\<open>int\<close> has 64 bits on the platforms the miner runs on: a value
  is an \<open>int\<close> between \<open>MinInt64\<close> and \<open>MaxInt64\<close>, and the result of \<^verbatim>\<open>+\<close>,
  \<^verbatim>\<open>-\<close>, \<^verbatim>\<open>*\<close> and \<^verbatim>\<open>++\<close> wraps around (\<open>wrap64\<close>).
\<close>

subsection \<open>Types of the engine and of the collaborators\<close>

type_synonym addr = nat
type_synonym PublicKey = string
type_synonym Proof = string
type_synonym Signature = string

definition MaxInt64 :: int where
  "MaxInt64 = 2 ^ 63 - 1"

definition MinInt64 :: int where
  "MinInt64 = - (2 ^ 63)"

definition wrap64 :: "int \<Rightarrow> int" where
  "wrap64 x = (x + 2 ^ 63) mod 2 ^ 64 - 2 ^ 63"

datatype WorkSpaceState = Registered | Plotting | Ready | Mining

text \<open>\<^verbatim>\<open>allState = engine.LastState + 1\<close>: the index of the bucket of all workspaces.\<close>

datatype IndexKey = StateIdx WorkSpaceState | allState

text \<open>Modelled from the spec: \<^verbatim>\<open>pocutil.Hash\<close> is not among the sources; a
  challenge is represented by its string form, which is all the code reads of it.\<close>

datatype Hash = Hash (Hash_String: string)

text \<open>Modelled from the spec: \<^verbatim>\<open>engine.WorkSpaceStateFlags\<close> is a set of
  states; the code reads it through \<^verbatim>\<open>flags.States()\<close> only.\<close>

datatype WorkSpaceStateFlags = StateFlags (States: "WorkSpaceState list")

text \<open>Modelled from the spec: \<^verbatim>\<open>engine.ActionType\<close> has the five verbs;
  any other value of the underlying integer is \<open>OtherAction\<close>.\<close>

datatype ActionType = Plot | Mine | Stop | Remove | Delete | OtherAction nat

fun IsValid :: "ActionType \<Rightarrow> bool" where
  "IsValid (OtherAction n) = False"
| "IsValid a = True"

datatype error =
    ErrWalletIsLocked
  | ErrSpaceKeeperIsRunning
  | ErrSpaceKeeperIsNotRunning
  | ErrSpaceKeeperIsConfiguring
  | ErrSpaceKeeperChangeDBDirs
  | ErrSpaceKeeperConfiguredNothing
  | ErrWorkSpaceDoesNotExist
  | ErrWorkSpaceIsNotPlotting
  | ErrWorkSpaceIsNotStill
  | ErrWorkSpaceCannotGenerate
  | ErrConfigUnderSizeTarget
  | ErrInvalidRequiredBytes
  | ErrOSDiskSizeNotEnough
  | ErrInvalidAction
  | ErrUnImplementedAction
  | ErrCollaborator string

text \<open>\<open>ErrCollaborator\<close> stands for the errors that the wallet, the plot backend and
  the disk query return; they are not errors of this package.

  A call of the Go code returns, panics (index out of range, nil dereference) or never
  returns (a send on a full channel, a loop that does not end).\<close>

datatype 'a outcome = Returns 'a | Panics | Hangs

text \<open>Modelled from the spec: \<^verbatim>\<open>SpaceID\<close> is the triple of ordinal, public key
  and bit length with a stable string form; the string that \<^verbatim>\<open>String()\<close>
  returns is carried as a field.\<close>

record SpaceID =
  sid_ordinal :: int
  sid_pubKey :: PublicKey
  sid_bitLength :: int
  sid_String :: string

record WorkSpace =
  ws_id :: SpaceID
  ws_state :: WorkSpaceState
  ws_using :: bool

record WorkSpaceInfo =
  info_SpaceID :: string
  info_PublicKey :: PublicKey
  info_Ordinal :: int
  info_BitLength :: int
  info_State :: WorkSpaceState

record WorkSpaceProof =
  proof_SpaceID :: string
  proof_Proof :: Proof
  proof_PublicKey :: PublicKey
  proof_Ordinal :: int
  proof_Error :: "error option"

record queuedWorkSpace =
  qws_ws :: addr
  wouldMining :: bool

definition newQueuedWorkSpace :: "addr \<Rightarrow> bool \<Rightarrow> queuedWorkSpace" where
  "newQueuedWorkSpace a wouldMine = \<lparr>qws_ws = a, wouldMining = wouldMine\<rparr>"

definition plotterMaxChanSize :: nat where
  "plotterMaxChanSize = 1024"

definition proofCacheSize :: nat where
  "proofCacheSize = 3000"

definition usableBitLength :: "int list" where
  "usableBitLength = [24, 26, 28]"

subsection \<open>The plotter queue\<close>

text \<open>Modelled from the spec: \<^verbatim>\<open>plotterQueue\<close> and
  \<^verbatim>\<open>queuedWorkSpace.priority\<close> are not among the sources. The queue is a
  priority queue with a peekable popped item and deletion by sid; the priority puts the
  lower state index first, then the larger bit length, then the smaller ordinal.\<close>

type_synonym priority = "nat \<times> int \<times> int"

record plotterQueue =
  pq_items :: "(queuedWorkSpace \<times> priority) list"
  pq_popped :: "queuedWorkSpace option"

fun state_index :: "WorkSpaceState \<Rightarrow> nat" where
  "state_index Registered = 0"
| "state_index Plotting = 1"
| "state_index Ready = 2"
| "state_index Mining = 3"

definition qws_priority :: "(addr \<Rightarrow> WorkSpace) \<Rightarrow> queuedWorkSpace \<Rightarrow> priority" where
  "qws_priority h q =
     (let w = h (qws_ws q)
      in (state_index (ws_state w), sid_bitLength (ws_id w), sid_ordinal (ws_id w)))"

fun prio_before :: "priority \<Rightarrow> priority \<Rightarrow> bool" where
  "prio_before (s1, b1, o1) (s2, b2, o2) =
     (s1 < s2 \<or> (s1 = s2 \<and> (b2 < b1 \<or> (b1 = b2 \<and> o1 < o2))))"

fun pq_insert ::
  "queuedWorkSpace \<Rightarrow> priority \<Rightarrow> (queuedWorkSpace \<times> priority) list
     \<Rightarrow> (queuedWorkSpace \<times> priority) list" where
  "pq_insert q p [] = [(q, p)]"
| "pq_insert q p (x # xs) =
     (if prio_before p (snd x) then (q, p) # x # xs else x # pq_insert q p xs)"

definition newPlotterQueue :: plotterQueue where
  "newPlotterQueue = \<lparr>pq_items = [], pq_popped = None\<rparr>"

definition pq_Push :: "plotterQueue \<Rightarrow> queuedWorkSpace \<Rightarrow> priority \<Rightarrow> plotterQueue" where
  "pq_Push pq q p = pq\<lparr>pq_items := pq_insert q p (pq_items pq)\<rparr>"

definition pq_PoppedItem :: "plotterQueue \<Rightarrow> queuedWorkSpace option" where
  "pq_PoppedItem pq = pq_popped pq"

definition pq_Delete :: "(addr \<Rightarrow> WorkSpace) \<Rightarrow> plotterQueue \<Rightarrow> string \<Rightarrow> plotterQueue" where
  "pq_Delete h pq sid =
     pq\<lparr>pq_items := filter (\<lambda>x. sid_String (ws_id (h (qws_ws (fst x)))) \<noteq> sid) (pq_items pq)\<rparr>"

definition pq_Reset :: "plotterQueue \<Rightarrow> plotterQueue" where
  "pq_Reset pq = newPlotterQueue"

text \<open>The sids with a pending job in the queue.\<close>

definition pq_sids :: "(addr \<Rightarrow> WorkSpace) \<Rightarrow> plotterQueue \<Rightarrow> string list" where
  "pq_sids h pq = map (\<lambda>x. sid_String (ws_id (h (qws_ws (fst x))))) (pq_items pq)"

subsection \<open>The index maps and the proof cache\<close>

text \<open>Modelled from the spec: \<^verbatim>\<open>WorkSpaceMap\<close> (Get, Set, Delete, Items) is
  not among the sources; it is a map from sid to workspace.\<close>

type_synonym WorkSpaceMap = "(string \<times> addr) list"

definition wsm_Get :: "WorkSpaceMap \<Rightarrow> string \<Rightarrow> addr option" where
  "wsm_Get m sid = map_of m sid"

definition wsm_Set :: "WorkSpaceMap \<Rightarrow> string \<Rightarrow> addr \<Rightarrow> WorkSpaceMap" where
  "wsm_Set m sid a = AList.update sid a m"

definition wsm_Delete :: "WorkSpaceMap \<Rightarrow> string \<Rightarrow> WorkSpaceMap" where
  "wsm_Delete m sid = AList.delete sid m"

text \<open>Modelled from the spec: \<^verbatim>\<open>ccache.CCache\<close> is not among the sources; it
  is a bounded cache with least-recently-used eviction, most recent entry first.\<close>

type_synonym CCache = "(string \<times> WorkSpaceProof) list"

definition cc_Get :: "CCache \<Rightarrow> string \<Rightarrow> WorkSpaceProof option \<times> CCache" where
  "cc_Get c k =
     (case map_of c k of
        None \<Rightarrow> (None, c)
      | Some v \<Rightarrow> (Some v, (k, v) # AList.delete k c))"

definition cc_Add :: "CCache \<Rightarrow> string \<Rightarrow> WorkSpaceProof \<Rightarrow> CCache" where
  "cc_Add c k v = take proofCacheSize ((k, v) # AList.delete k c)"

subsection \<open>The SpaceKeeper\<close>

record SpaceKeeper =
  started :: bool
  configuring :: int
  configured :: int
  allowGenerateNewSpace :: bool
  dbDirs :: "string list"
  dbType :: string
  heap :: "addr \<Rightarrow> WorkSpace"
  nextAddr :: addr
  workSpaceIndex :: "IndexKey \<Rightarrow> WorkSpaceMap"
  workSpaceList :: "addr list"
  queue :: plotterQueue
  newQueuedWorkSpaceCh :: "queuedWorkSpace list"
  proofCache :: CCache
  walletIssued :: nat
  walletLocked :: bool

text \<open>The collaborators, whose code is outside the package: the wallet, the disk query,
  the plot backend behind a workspace, the constructor of workspaces, the size table of
  the PoC package and the hook that scans the data directories. \<open>nextAddr\<close> is the
  address the next allocated workspace gets; \<open>walletIssued\<close> counts the keys the wallet
  has generated.\<close>

record Env =
  wallet_GenerateNewPublicKey :: "nat \<Rightarrow> error + (PublicKey \<times> nat)"
  wallet_SignMessage :: "PublicKey \<Rightarrow> string \<Rightarrow> error + Signature"
  wallet_Unlock :: "string \<Rightarrow> error option"
  disk_Usage :: "string \<Rightarrow> error + nat"
  NewWorkSpace :: "string \<Rightarrow> string \<Rightarrow> int \<Rightarrow> PublicKey \<Rightarrow> int \<Rightarrow> error + WorkSpace"
  NewSpaceID :: "int \<Rightarrow> PublicKey \<Rightarrow> int \<Rightarrow> SpaceID"
  db_GetProof :: "WorkSpace \<Rightarrow> Hash \<Rightarrow> Proof \<times> error option"
  ws_StopPlot :: "WorkSpace \<Rightarrow> error option"
  ws_Delete :: "WorkSpace \<Rightarrow> error option"
  BitLengthDiskSize :: "int \<Rightarrow> int"
  MinDiskSize :: int
  generateInitialIndex :: "SpaceKeeper \<Rightarrow> error option \<times> SpaceKeeper"

definition sidOf :: "SpaceKeeper \<Rightarrow> addr \<Rightarrow> string" where
  "sidOf sk a = sid_String (ws_id (heap sk a))"

definition ws_Info :: "WorkSpace \<Rightarrow> WorkSpaceInfo" where
  "ws_Info w =
     \<lparr>info_SpaceID = sid_String (ws_id w), info_PublicKey = sid_pubKey (ws_id w),
      info_Ordinal = sid_ordinal (ws_id w), info_BitLength = sid_bitLength (ws_id w),
      info_State = ws_state w\<rparr>"

definition index_Get :: "SpaceKeeper \<Rightarrow> IndexKey \<Rightarrow> string \<Rightarrow> addr option" where
  "index_Get sk k sid = wsm_Get (workSpaceIndex sk k) sid"

definition index_Set :: "SpaceKeeper \<Rightarrow> IndexKey \<Rightarrow> string \<Rightarrow> addr \<Rightarrow> SpaceKeeper" where
  "index_Set sk k sid a =
     sk\<lparr>workSpaceIndex := (workSpaceIndex sk)(k := wsm_Set (workSpaceIndex sk k) sid a)\<rparr>"

definition index_Delete :: "SpaceKeeper \<Rightarrow> IndexKey \<Rightarrow> string \<Rightarrow> SpaceKeeper" where
  "index_Delete sk k sid =
     sk\<lparr>workSpaceIndex := (workSpaceIndex sk)(k := wsm_Delete (workSpaceIndex sk k) sid)\<rparr>"

definition set_state :: "SpaceKeeper \<Rightarrow> addr \<Rightarrow> WorkSpaceState \<Rightarrow> SpaceKeeper" where
  "set_state sk a s = sk\<lparr>heap := (heap sk)(a := (heap sk a)\<lparr>ws_state := s\<rparr>)\<rparr>"

definition set_using :: "SpaceKeeper \<Rightarrow> addr \<Rightarrow> bool \<Rightarrow> SpaceKeeper" where
  "set_using sk a b = sk\<lparr>heap := (heap sk)(a := (heap sk a)\<lparr>ws_using := b\<rparr>)\<rparr>"

subsection \<open>Slices of workspaces\<close>

fun deleteFromSlice :: "SpaceKeeper \<Rightarrow> addr list \<Rightarrow> string \<Rightarrow> addr list" where
  "deleteFromSlice sk [] sid = []"
| "deleteFromSlice sk (a # as) sid =
     (if sidOf sk a = sid then as else a # deleteFromSlice sk as sid)"

definition getWsByFlags :: "SpaceKeeper \<Rightarrow> addr list \<Rightarrow> WorkSpaceStateFlags \<Rightarrow> addr list" where
  "getWsByFlags sk src flags =
     filter (\<lambda>a. ws_state (heap sk a) \<in> set (States flags)) src"

definition useWorkSpace :: "SpaceKeeper \<Rightarrow> addr \<Rightarrow> SpaceKeeper" where
  "useWorkSpace sk a =
     (if list_ex (\<lambda>e. sidOf sk e = sidOf sk a) (workSpaceList sk) then sk
      else set_using (sk\<lparr>workSpaceList := workSpaceList sk @ [a]\<rparr>) a True)"

definition disuseWorkSpace :: "SpaceKeeper \<Rightarrow> addr \<Rightarrow> SpaceKeeper" where
  "disuseWorkSpace sk a =
     (let sk1 = set_using sk a False
      in sk1\<lparr>workSpaceList := deleteFromSlice sk1 (workSpaceList sk1) (sidOf sk1 a)\<rparr>)"

definition addWorkSpaceToIndex :: "SpaceKeeper \<Rightarrow> addr \<Rightarrow> SpaceKeeper" where
  "addWorkSpaceToIndex sk a =
     (let sid = sidOf sk a
      in case index_Get sk allState sid of
           Some _ \<Rightarrow> sk
         | None \<Rightarrow> index_Set (index_Set sk allState sid a) (StateIdx (ws_state (heap sk a))) sid a)"

subsection \<open>Signing\<close>

definition SignHash :: "Env \<Rightarrow> SpaceKeeper \<Rightarrow> string \<Rightarrow> string \<Rightarrow> error + Signature" where
  "SignHash env sk sid hash =
     (case map_of (workSpaceIndex sk allState) sid of
        Some a \<Rightarrow> wallet_SignMessage env (sid_pubKey (ws_id (heap sk a))) hash
      | None \<Rightarrow> Inl ErrWorkSpaceDoesNotExist)"

subsection \<open>The action verbs\<close>

text \<open>The send on \<^verbatim>\<open>newQueuedWorkSpaceCh\<close>, a channel of capacity
  \<open>plotterMaxChanSize\<close>: with the buffer full and the plotter loop not receiving, the
  sender does not return.\<close>

definition chan_send :: "SpaceKeeper \<Rightarrow> queuedWorkSpace \<Rightarrow> (error option \<times> SpaceKeeper) outcome" where
  "chan_send sk q =
     (if length (newQueuedWorkSpaceCh sk) < plotterMaxChanSize
      then Returns (None, sk\<lparr>newQueuedWorkSpaceCh := newQueuedWorkSpaceCh sk @ [q]\<rparr>)
      else Hangs)"

text \<open>The branch for a plotting workspace shared by Plot, Mine and Stop: the popped item
  of the queue must be the workspace; its \<open>wouldMining\<close> flag is overwritten.\<close>

definition set_popped_wouldMining ::
  "SpaceKeeper \<Rightarrow> string \<Rightarrow> bool \<Rightarrow> error option \<Rightarrow> (error option \<times> SpaceKeeper) outcome" where
  "set_popped_wouldMining sk sid b ret =
     (case pq_PoppedItem (queue sk) of
        None \<Rightarrow> Panics
      | Some qws \<Rightarrow>
          if sidOf sk (qws_ws qws) \<noteq> sid then Returns (Some ErrWorkSpaceIsNotPlotting, sk)
          else Returns (ret, sk\<lparr>queue := (queue sk)\<lparr>pq_popped := Some (qws\<lparr>wouldMining := b\<rparr>)\<rparr>\<rparr>))"

definition known_using :: "SpaceKeeper \<Rightarrow> string \<Rightarrow> bool" where
  "known_using sk sid =
     (case index_Get sk allState sid of None \<Rightarrow> False | Some a \<Rightarrow> ws_using (heap sk a))"

definition PlotWS :: "SpaceKeeper \<Rightarrow> string \<Rightarrow> (error option \<times> SpaceKeeper) outcome" where
  "PlotWS sk sid =
     (if \<not> known_using sk sid then Returns (Some ErrWorkSpaceDoesNotExist, sk)
      else case index_Get sk (StateIdx Registered) sid of
        Some a \<Rightarrow> chan_send sk (newQueuedWorkSpace a False)
      | None \<Rightarrow>
         (case index_Get sk (StateIdx Plotting) sid of
            Some _ \<Rightarrow> set_popped_wouldMining sk sid False None
          | None \<Rightarrow> Returns (None, sk)))"

definition MineWS :: "SpaceKeeper \<Rightarrow> string \<Rightarrow> (error option \<times> SpaceKeeper) outcome" where
  "MineWS sk sid =
     (if \<not> known_using sk sid then Returns (Some ErrWorkSpaceDoesNotExist, sk)
      else case index_Get sk (StateIdx Registered) sid of
        Some a \<Rightarrow> chan_send sk (newQueuedWorkSpace a True)
      | None \<Rightarrow>
         (case index_Get sk (StateIdx Plotting) sid of
            Some _ \<Rightarrow> set_popped_wouldMining sk sid True None
          | None \<Rightarrow>
             (case index_Get sk (StateIdx Ready) sid of
                Some a \<Rightarrow>
                  Returns (None,
                    set_state (index_Set (index_Delete sk (StateIdx Ready) sid)
                                 (StateIdx Mining) sid a) a Mining)
              | None \<Rightarrow> Returns (None, sk))))"

definition StopWS :: "Env \<Rightarrow> SpaceKeeper \<Rightarrow> string \<Rightarrow> (error option \<times> SpaceKeeper) outcome" where
  "StopWS env sk sid =
     (if \<not> known_using sk sid then Returns (Some ErrWorkSpaceDoesNotExist, sk)
      else
        let sk1 = sk\<lparr>queue := pq_Delete (heap sk) (queue sk) sid\<rparr>
        in case index_Get sk1 (StateIdx Plotting) sid of
             Some a \<Rightarrow> set_popped_wouldMining sk1 sid False (ws_StopPlot env (heap sk1 a))
           | None \<Rightarrow>
              (case index_Get sk1 (StateIdx Mining) sid of
                 Some a \<Rightarrow>
                   Returns (None,
                     set_state (index_Set (index_Delete sk1 (StateIdx Mining) sid)
                                  (StateIdx Ready) sid a) a Ready)
               | None \<Rightarrow> Returns (None, sk1)))"

text \<open>Remove and Delete look the workspace up among the registered ones, then among the
  ready ones.\<close>

definition still_ws :: "SpaceKeeper \<Rightarrow> string \<Rightarrow> addr option" where
  "still_ws sk sid =
     (case index_Get sk (StateIdx Registered) sid of
        Some a \<Rightarrow> Some a
      | None \<Rightarrow> index_Get sk (StateIdx Ready) sid)"

definition RemoveWS :: "SpaceKeeper \<Rightarrow> string \<Rightarrow> (error option \<times> SpaceKeeper) outcome" where
  "RemoveWS sk sid =
     (if \<not> known_using sk sid then Returns (Some ErrWorkSpaceDoesNotExist, sk)
      else
        let sk1 = sk\<lparr>queue := pq_Delete (heap sk) (queue sk) sid\<rparr>
        in case still_ws sk1 sid of
             None \<Rightarrow> Returns (Some ErrWorkSpaceIsNotStill, sk1)
           | Some a \<Rightarrow> Returns (None, disuseWorkSpace sk1 a))"

definition DeleteWS :: "Env \<Rightarrow> SpaceKeeper \<Rightarrow> string \<Rightarrow> (error option \<times> SpaceKeeper) outcome" where
  "DeleteWS env sk sid =
     (if \<not> known_using sk sid then Returns (Some ErrWorkSpaceDoesNotExist, sk)
      else
        let sk1 = sk\<lparr>queue := pq_Delete (heap sk) (queue sk) sid\<rparr>
        in case still_ws sk1 sid of
             None \<Rightarrow> Returns (Some ErrWorkSpaceIsNotStill, sk1)
           | Some a \<Rightarrow>
               let sk2 = index_Delete sk1 (StateIdx (ws_state (heap sk1 a))) sid;
                   sk3 = index_Delete sk2 allState sid;
                   sk4 = disuseWorkSpace sk3 a
               in Returns (ws_Delete env (heap sk4 a), sk4))"

fun ActOnWorkSpace ::
  "Env \<Rightarrow> SpaceKeeper \<Rightarrow> string \<Rightarrow> ActionType \<Rightarrow> (error option \<times> SpaceKeeper) outcome" where
  "ActOnWorkSpace env sk sid action =
     (if \<not> IsValid action then Returns (Some ErrInvalidAction, sk)
      else case action of
        Plot \<Rightarrow> PlotWS sk sid
      | Mine \<Rightarrow> MineWS sk sid
      | Stop \<Rightarrow> StopWS env sk sid
      | Remove \<Rightarrow> RemoveWS sk sid
      | Delete \<Rightarrow> DeleteWS env sk sid
      | OtherAction n \<Rightarrow> Returns (Some ErrUnImplementedAction, sk))"

subsection \<open>Seeding the data directories\<close>

definition strSliceEqual :: "string list \<Rightarrow> string list \<Rightarrow> bool" where
  "strSliceEqual newDirs oldDirs =
     (if length newDirs \<noteq> length oldDirs then False
      else list_all (\<lambda>dir. dir \<in> set oldDirs) newDirs)"

definition ResetDBDirs :: "Env \<Rightarrow> SpaceKeeper \<Rightarrow> string list \<Rightarrow> error option \<times> SpaceKeeper" where
  "ResetDBDirs env sk newDirs =
     (if started sk then (Some ErrSpaceKeeperIsRunning, sk)
      else if length (dbDirs sk) = 0 then generateInitialIndex env (sk\<lparr>dbDirs := newDirs\<rparr>)
      else if \<not> strSliceEqual newDirs (dbDirs sk) then (Some ErrSpaceKeeperChangeDBDirs, sk)
      else (None, sk))"

subsection \<open>Proof lookup\<close>

text \<open>The record that \<^verbatim>\<open>getProof\<close> builds from the answer of the plot backend:
  the proof and the error of the backend side by side.\<close>

definition proof_record :: "WorkSpace \<Rightarrow> Proof \<times> error option \<Rightarrow> WorkSpaceProof" where
  "proof_record w r =
     \<lparr>proof_SpaceID = sid_String (ws_id w), proof_Proof = fst r,
      proof_PublicKey = sid_pubKey (ws_id w), proof_Ordinal = sid_ordinal (ws_id w),
      proof_Error = snd r\<rparr>"

definition getProof :: "Env \<Rightarrow> SpaceKeeper \<Rightarrow> addr \<Rightarrow> Hash \<Rightarrow> WorkSpaceProof \<times> SpaceKeeper" where
  "getProof env sk a challenge =
     (let w = heap sk a;
          cacheKey = sid_String (ws_id w) @ Hash_String challenge
      in case cc_Get (proofCache sk) cacheKey of
           (Some v, c) \<Rightarrow> (v, sk\<lparr>proofCache := c\<rparr>)
         | (None, c) \<Rightarrow>
             (let result = proof_record w (db_GetProof env w challenge)
              in (result, sk\<lparr>proofCache := cc_Add c cacheKey result\<rparr>)))"

definition GetProof ::
  "Env \<Rightarrow> SpaceKeeper \<Rightarrow> string \<Rightarrow> Hash \<Rightarrow> (error + WorkSpaceProof) \<times> SpaceKeeper" where
  "GetProof env sk sid challenge =
     (if \<not> started sk then (Inl ErrSpaceKeeperIsNotRunning, sk)
      else case map_of (workSpaceIndex sk allState) sid of
             None \<Rightarrow> (Inl ErrWorkSpaceDoesNotExist, sk)
           | Some a \<Rightarrow>
               if ws_using (heap sk a)
               then (let r = getProof env sk a challenge in (Inr (fst r), snd r))
               else (Inl ErrWorkSpaceDoesNotExist, sk))"

record Job =
  job_ws :: addr
  job_cacheKey :: string
  job_challenge :: Hash

text \<open>The first loop of \<^verbatim>\<open>getProofs\<close>: a cached proof goes to the result, any
  other workspace becomes a job for the pool.\<close>

fun getProofs_submit ::
  "Hash \<Rightarrow> (string \<times> addr) list \<Rightarrow> CCache \<times> (string \<times> WorkSpaceProof) list \<times> Job list
     \<Rightarrow> CCache \<times> (string \<times> WorkSpaceProof) list \<times> Job list" where
  "getProofs_submit challenge [] acc = acc"
| "getProofs_submit challenge (x # xs) acc =
     (let cacheKey = fst x @ Hash_String challenge
      in case cc_Get (fst acc) cacheKey of
           (Some v, c) \<Rightarrow>
             getProofs_submit challenge xs (c, AList.update (fst x) v (fst (snd acc)), snd (snd acc))
         | (None, c) \<Rightarrow>
             getProofs_submit challenge xs
               (c, fst (snd acc),
                snd (snd acc) @ [\<lparr>job_ws = snd x, job_cacheKey = cacheKey, job_challenge = challenge\<rparr>]))"

text \<open>Modelled from the spec: \<^verbatim>\<open>WorkerPool\<close> and \<^verbatim>\<open>Job\<close> are not
  among the sources. A submitted job counts one on the wait group; a worker looks the proof
  up in the plot backend, adds the record to the cache and counts the job done. The jobs
  run here in the order of their submission.\<close>

definition run_job :: "Env \<Rightarrow> SpaceKeeper \<Rightarrow> Job \<Rightarrow> CCache \<Rightarrow> CCache" where
  "run_job env sk j c =
     (let w = heap sk (job_ws j)
      in cc_Add c (job_cacheKey j) (proof_record w (db_GetProof env w (job_challenge j))))"

text \<open>The last loop of \<^verbatim>\<open>getProofs\<close>: the cache is read again for every job.\<close>

fun getProofs_collect ::
  "SpaceKeeper \<Rightarrow> Job list \<Rightarrow> CCache \<times> (string \<times> WorkSpaceProof) list
     \<Rightarrow> CCache \<times> (string \<times> WorkSpaceProof) list" where
  "getProofs_collect sk [] acc = acc"
| "getProofs_collect sk (j # js) acc =
     (case cc_Get (fst acc) (job_cacheKey j) of
        (Some v, c) \<Rightarrow> getProofs_collect sk js (c, AList.update (sidOf sk (job_ws j)) v (snd acc))
      | (None, c) \<Rightarrow> getProofs_collect sk js (c, snd acc))"

text \<open>The wait group of \<^verbatim>\<open>getProofs\<close>: its counter is the number of submitted
  jobs, goes up and down by one (\<^verbatim>\<open>wg.Add(1); wg.Done()\<close>), and down by one for
  every job a worker has finished; \<^verbatim>\<open>wg.Wait()\<close> returns when it is zero.\<close>

definition getProofs ::
  "Env \<Rightarrow> SpaceKeeper \<Rightarrow> (string \<times> addr) list \<Rightarrow> Hash
     \<Rightarrow> ((string \<times> WorkSpaceProof) list \<times> SpaceKeeper) outcome" where
  "getProofs env sk wsMap challenge =
     (let s = getProofs_submit challenge wsMap (proofCache sk, [], []);
          jobList = snd (snd s);
          submitted = int (length jobList);
          wg1 = submitted + 1;
          wg2 = wg1 - 1;
          c2 = fold (run_job env sk) jobList (fst s);
          wg3 = wg2 - int (length jobList)
      in if wg3 \<noteq> 0 then Hangs
         else (let r = getProofs_collect sk jobList (c2, fst (snd s))
               in Returns (snd r, sk\<lparr>proofCache := fst r\<rparr>)))"

definition GetProofs ::
  "Env \<Rightarrow> SpaceKeeper \<Rightarrow> WorkSpaceStateFlags \<Rightarrow> Hash
     \<Rightarrow> ((error + WorkSpaceProof list) \<times> SpaceKeeper) outcome" where
  "GetProofs env sk flags challenge =
     (if \<not> started sk then Returns (Inl ErrSpaceKeeperIsNotRunning, sk)
      else
        let items = fold (\<lambda>a m. AList.update (sidOf sk a) a m)
                      (getWsByFlags sk (workSpaceList sk) flags) []
        in case getProofs env sk items challenge of
             Returns r \<Rightarrow> Returns (Inr (map snd (fst r)), snd r)
           | Panics \<Rightarrow> Panics
           | Hangs \<Rightarrow> Hangs)"

subsection \<open>The planner: shared steps\<close>

definition checkOSDiskSize :: "Env \<Rightarrow> SpaceKeeper \<Rightarrow> int \<Rightarrow> error option outcome" where
  "checkOSDiskSize env sk requiredBytes =
     (if requiredBytes < 0 then Returns (Some ErrInvalidRequiredBytes)
      else case dbDirs sk of
             [] \<Rightarrow> Panics
           | d # ds \<Rightarrow>
              (case disk_Usage env d of
                 Inl e \<Rightarrow> Returns (Some e)
               | Inr free \<Rightarrow>
                   if free \<le> nat requiredBytes then Returns (Some ErrOSDiskSizeNotEnough)
                   else Returns None))"

text \<open>A new workspace object gets the next free address of the store.\<close>

definition alloc :: "SpaceKeeper \<Rightarrow> WorkSpace \<Rightarrow> addr \<times> SpaceKeeper" where
  "alloc sk w =
     (nextAddr sk, sk\<lparr>heap := (heap sk)(nextAddr sk := w), nextAddr := Suc (nextAddr sk)\<rparr>)"

definition generateNewWorkSpaceByPubKey ::
  "Env \<Rightarrow> SpaceKeeper \<Rightarrow> int \<Rightarrow> PublicKey \<Rightarrow> int \<Rightarrow> ((error + addr) \<times> SpaceKeeper) outcome" where
  "generateNewWorkSpaceByPubKey env sk ordinal pubKey bitLength =
     (case dbDirs sk of
        [] \<Rightarrow> Panics
      | d # ds \<Rightarrow>
         (case NewWorkSpace env (dbType sk) d ordinal pubKey bitLength of
            Inl e \<Rightarrow> Returns (Inl e, sk)
          | Inr w \<Rightarrow> (let r = alloc sk w in Returns (Inr (fst r), snd r))))"

definition generateNewWorkSpace ::
  "Env \<Rightarrow> SpaceKeeper \<Rightarrow> int \<Rightarrow> ((error + addr) \<times> SpaceKeeper) outcome" where
  "generateNewWorkSpace env sk bitLength =
     (let sk1 = sk\<lparr>walletIssued := Suc (walletIssued sk)\<rparr>
      in case wallet_GenerateNewPublicKey env (walletIssued sk) of
           Inl e \<Rightarrow> Returns (Inl e, sk1)
         | Inr k \<Rightarrow> generateNewWorkSpaceByPubKey env sk1 (int (snd k)) (fst k) bitLength)"

text \<open>Modelled from the spec: \<^verbatim>\<open>PopItem\<close> takes the items out in the order of
  their priority, so the loop \<^verbatim>\<open>for !tmpQueuedList.Empty()\<close> visits the items
  of the temporary queue from first to last.

  Every planner ends with the same two loops: the selected workspaces go through a
  temporary queue, and each popped item is pushed to the queue of the SpaceKeeper and
  marked as used.\<close>

definition requeue :: "SpaceKeeper \<Rightarrow> addr list \<Rightarrow> bool \<Rightarrow> SpaceKeeper" where
  "requeue sk resultList wouldMine =
     (let tmpQueuedList =
            fold (\<lambda>a q. pq_Push q (newQueuedWorkSpace a wouldMine)
                           (qws_priority (heap sk) (newQueuedWorkSpace a wouldMine)))
              resultList newPlotterQueue
      in fold (\<lambda>x s. useWorkSpace
                        (s\<lparr>queue := pq_Push (queue s) (fst x) (qws_priority (heap s) (fst x))\<rparr>)
                        (qws_ws (fst x)))
           (pq_items tmpQueuedList) sk)"

definition reset_unless_exec :: "SpaceKeeper \<Rightarrow> bool \<Rightarrow> bool \<Rightarrow> SpaceKeeper" where
  "reset_unless_exec sk execPlot execMine =
     (if \<not> (execMine \<or> execPlot) then sk\<lparr>queue := pq_Reset (queue sk)\<rparr> else sk)"

definition clear_using :: "SpaceKeeper \<Rightarrow> SpaceKeeper" where
  "clear_using sk = fold (\<lambda>a s. set_using s a False) (workSpaceList sk) sk"

text \<open>\<^verbatim>\<open>getIndexedWorkSpaces\<close>: the workspaces of the bucket of all states, grouped
  by bit length, each group in the order of the queue's priority.\<close>

definition getIndexedWorkSpaces :: "SpaceKeeper \<Rightarrow> (int \<times> addr list) list" where
  "getIndexedWorkSpaces sk =
     (let queueMap =
            fold (\<lambda>x qm.
                    let bl = sid_bitLength (ws_id (heap sk (snd x)));
                        qws = newQueuedWorkSpace (snd x) False
                    in case map_of qm bl of
                         Some q \<Rightarrow> AList.update bl (pq_Push q qws (qws_priority (heap sk) qws)) qm
                       | None \<Rightarrow>
                           AList.update bl
                             (pq_Push newPlotterQueue qws (qws_priority (heap sk) qws)) qm)
              (workSpaceIndex sk allState) []
      in map (\<lambda>e. (fst e, map (\<lambda>x. qws_ws (fst x)) (pq_items (snd e)))) queueMap)"

subsection \<open>Configuring by flags\<close>

definition ConfigureByFlags ::
  "SpaceKeeper \<Rightarrow> WorkSpaceStateFlags \<Rightarrow> bool \<Rightarrow> bool
     \<Rightarrow> (error + WorkSpaceInfo list) \<times> SpaceKeeper" where
  "ConfigureByFlags sk flags execPlot execMine =
     (if started sk then (Inl ErrSpaceKeeperIsRunning, sk)
      else if configuring sk \<noteq> 0 then (Inl ErrSpaceKeeperIsConfiguring, sk)
      else
        let sk1 = sk\<lparr>configuring := 1, configured := 0\<rparr>;
            items = concat (map (\<lambda>s. map snd (workSpaceIndex sk1 (StateIdx s))) (States flags));
            sk2 = requeue (sk1\<lparr>workSpaceList := []\<rparr>) items True;
            sk3 = reset_unless_exec sk2 execPlot execMine;
            wsiList = map (\<lambda>a. ws_Info (heap sk3 a)) (workSpaceList sk3);
            sk4 = (if length wsiList = 0 then sk3\<lparr>configured := 1\<rparr> else sk3)
        in (Inr wsiList, sk4\<lparr>configuring := 0\<rparr>))"

subsection \<open>Configuring by public keys\<close>

text \<open>The two maps of \<^verbatim>\<open>ConfigureByPubKey\<close> are lists of pairs with distinct keys,
  so the length of the list is \<^verbatim>\<open>len(PubKeyBL)\<close>.
  \<^verbatim>\<open>pubKeyOrdinal[pubKey]\<close>: a key that the map lacks reads as zero.\<close>

definition ordinal_of :: "(PublicKey \<times> int) list \<Rightarrow> PublicKey \<Rightarrow> int" where
  "ordinal_of m pubKey = (case map_of m pubKey of None \<Rightarrow> 0 | Some n \<Rightarrow> n)"

fun generateByPubKey_loop ::
  "Env \<Rightarrow> (PublicKey \<times> int) list \<Rightarrow> (PublicKey \<times> int) list \<Rightarrow> SpaceKeeper \<Rightarrow> addr list
     \<Rightarrow> ((error + addr list) \<times> SpaceKeeper) outcome" where
  "generateByPubKey_loop env pubKeyOrdinal [] sk dstList = Returns (Inr dstList, sk)"
| "generateByPubKey_loop env pubKeyOrdinal (x # xs) sk dstList =
     (case index_Get sk allState
             (sid_String (NewSpaceID env (ordinal_of pubKeyOrdinal (fst x)) (fst x) (snd x))) of
        Some a \<Rightarrow> generateByPubKey_loop env pubKeyOrdinal xs sk (dstList @ [a])
      | None \<Rightarrow>
         (case generateNewWorkSpaceByPubKey env sk (ordinal_of pubKeyOrdinal (fst x)) (fst x) (snd x) of
            Panics \<Rightarrow> Panics
          | Hangs \<Rightarrow> Hangs
          | Returns r \<Rightarrow>
             (case fst r of
                Inl e \<Rightarrow> Returns (Inl e, snd r)
              | Inr a \<Rightarrow>
                  generateByPubKey_loop env pubKeyOrdinal xs (addWorkSpaceToIndex (snd r) a)
                    (dstList @ [a]))))"

definition generateFillSpaceListByPubKey ::
  "Env \<Rightarrow> SpaceKeeper \<Rightarrow> addr list \<Rightarrow> (PublicKey \<times> int) list \<Rightarrow> (PublicKey \<times> int) list
     \<Rightarrow> ((error + addr list) \<times> SpaceKeeper) outcome" where
  "generateFillSpaceListByPubKey env sk dstList targetPubKeyBL pubKeyOrdinal =
     (let requiredOSDiskSize =
            fold (\<lambda>x r.
                    if index_Get sk allState
                         (sid_String (NewSpaceID env (ordinal_of pubKeyOrdinal (fst x)) (fst x) (snd x)))
                       = None
                    then wrap64 (r + BitLengthDiskSize env (snd x)) else r)
              targetPubKeyBL 0
      in case checkOSDiskSize env sk requiredOSDiskSize of
           Panics \<Rightarrow> Panics
         | Hangs \<Rightarrow> Hangs
         | Returns (Some e) \<Rightarrow> Returns (Inl e, sk)
         | Returns None \<Rightarrow> generateByPubKey_loop env pubKeyOrdinal targetPubKeyBL sk dstList)"

definition ConfigureByPubKey ::
  "Env \<Rightarrow> SpaceKeeper \<Rightarrow> (PublicKey \<times> int) list \<Rightarrow> (PublicKey \<times> int) list \<Rightarrow> bool \<Rightarrow> bool
     \<Rightarrow> ((error + WorkSpaceInfo list) \<times> SpaceKeeper) outcome" where
  "ConfigureByPubKey env sk PubKeyBL PubKeyOrdinal execPlot execMine =
     (if started sk then Returns (Inl ErrSpaceKeeperIsRunning, sk)
      else if configuring sk \<noteq> 0 then Returns (Inl ErrSpaceKeeperIsConfiguring, sk)
      else
        case generateFillSpaceListByPubKey env (sk\<lparr>configuring := 1, configured := 0\<rparr>) []
               PubKeyBL PubKeyOrdinal of
          Panics \<Rightarrow> Panics
        | Hangs \<Rightarrow> Hangs
        | Returns r \<Rightarrow>
           (case fst r of
              Inl e \<Rightarrow> Returns (Inl e, (snd r)\<lparr>configuring := 0\<rparr>)
            | Inr resultList \<Rightarrow>
                if length resultList \<noteq> length PubKeyBL
                then Returns (Inl ErrSpaceKeeperConfiguredNothing, (snd r)\<lparr>configuring := 0\<rparr>)
                else
                  let sk2 = requeue ((snd r)\<lparr>workSpaceList := []\<rparr>) resultList execMine;
                      sk3 = reset_unless_exec sk2 execPlot execMine;
                      wsiList = map (\<lambda>a. ws_Info (heap sk3 a)) resultList
                  in Returns (Inr wsiList, sk3\<lparr>configured := 1, configuring := 0\<rparr>)))"

subsection \<open>Configuring by bit length\<close>









subsection \<open>Configuring by size\<close>

text \<open>Both fills of \<^verbatim>\<open>ConfigureBySize\<close> reverse the slice of
  \<^verbatim>\<open>usableBitLength()\<close> in place before they range over it.\<close>

definition allowedBL :: "int list" where
  "allowedBL = rev usableBitLength"

fun fillBySize_spaces :: "int \<Rightarrow> int \<Rightarrow> addr list \<Rightarrow> addr list \<times> int \<Rightarrow> addr list \<times> int" where
  "fillBySize_spaces sz targetSize [] acc = acc"
| "fillBySize_spaces sz targetSize (space # spaces) acc =
     (let currentSize = wrap64 (snd acc + sz)
      in if currentSize > targetSize
         then fillBySize_spaces sz targetSize spaces (fst acc, wrap64 (currentSize - sz))
         else fillBySize_spaces sz targetSize spaces (fst acc @ [space], currentSize))"

fun fillBySize_loop ::
  "Env \<Rightarrow> (int \<times> addr list) list \<Rightarrow> int \<Rightarrow> int list \<Rightarrow> addr list \<times> int \<Rightarrow> addr list \<times> int" where
  "fillBySize_loop env srcMap targetSize [] acc = acc"
| "fillBySize_loop env srcMap targetSize (bl # bls) acc =
     (case map_of srcMap bl of
        None \<Rightarrow> fillBySize_loop env srcMap targetSize bls acc
      | Some spaces \<Rightarrow>
          fillBySize_loop env srcMap targetSize bls
            (fillBySize_spaces (BitLengthDiskSize env bl) targetSize spaces acc))"

definition fillSpaceListBySize ::
  "Env \<Rightarrow> addr list \<Rightarrow> (int \<times> addr list) list \<Rightarrow> int \<Rightarrow> int \<Rightarrow> addr list \<times> int \<times> bool" where
  "fillSpaceListBySize env dstList srcMap currentSize targetSize =
     (let r = fillBySize_loop env srcMap targetSize allowedBL (dstList, currentSize)
      in if snd r = targetSize \<or> wrap64 (targetSize - snd r) < MinDiskSize env
         then (fst r, snd r, True)
         else (fst r, snd r, False))"

text \<open>The generating loop ends when the remaining size is below the size of a plot of
  the bit length; with a size that is not positive it ends only when a generation
  fails.\<close>

partial_function (option) generateBySize_loop ::
  "Env \<Rightarrow> int \<Rightarrow> int \<Rightarrow> SpaceKeeper \<Rightarrow> addr list \<Rightarrow> int
     \<Rightarrow> ((error + addr list \<times> int) \<times> SpaceKeeper) outcome option" where
  "generateBySize_loop env bl targetSize sk dstList currentSize =
     (if wrap64 (targetSize - currentSize) < BitLengthDiskSize env bl
      then Some (Returns (Inr (dstList, currentSize), sk))
      else case generateNewWorkSpace env sk bl of
             Panics \<Rightarrow> Some Panics
           | Hangs \<Rightarrow> Some Hangs
           | Returns r \<Rightarrow>
              (case fst r of
                 Inl e \<Rightarrow> Some (Returns (Inl e, snd r))
               | Inr a \<Rightarrow>
                   generateBySize_loop env bl targetSize (addWorkSpaceToIndex (snd r) a)
                     (dstList @ [a]) (wrap64 (currentSize + BitLengthDiskSize env bl))))"

fun generateBySize_bls ::
  "Env \<Rightarrow> int \<Rightarrow> int list \<Rightarrow> SpaceKeeper \<Rightarrow> addr list \<Rightarrow> int
     \<Rightarrow> ((error + addr list) \<times> SpaceKeeper) outcome" where
  "generateBySize_bls env targetSize [] sk dstList currentSize = Returns (Inr dstList, sk)"
| "generateBySize_bls env targetSize (bl # bls) sk dstList currentSize =
     (case generateBySize_loop env bl targetSize sk dstList currentSize of
        None \<Rightarrow> Hangs
      | Some Panics \<Rightarrow> Panics
      | Some Hangs \<Rightarrow> Hangs
      | Some (Returns r) \<Rightarrow>
         (case fst r of
            Inl e \<Rightarrow> Returns (Inl e, snd r)
          | Inr d \<Rightarrow> generateBySize_bls env targetSize bls (snd r) (fst d) (snd d)))"

definition generateFillSpaceListBySize ::
  "Env \<Rightarrow> SpaceKeeper \<Rightarrow> addr list \<Rightarrow> int \<Rightarrow> int \<Rightarrow> ((error + addr list) \<times> SpaceKeeper) outcome" where
  "generateFillSpaceListBySize env sk dstList currentSize targetSize =
     (if \<not> allowGenerateNewSpace sk then Returns (Inl ErrWorkSpaceCannotGenerate, sk)
      else case checkOSDiskSize env sk (wrap64 (targetSize - currentSize)) of
             Panics \<Rightarrow> Panics
           | Hangs \<Rightarrow> Hangs
           | Returns (Some e) \<Rightarrow> Returns (Inl e, sk)
           | Returns None \<Rightarrow> generateBySize_bls env targetSize allowedBL sk dstList currentSize)"

text \<open>The selection of \<^verbatim>\<open>ConfigureBySize\<close>: the list with which
  \<^verbatim>\<open>successfullyReturn\<close> is called, or the error of the generation.\<close>

definition selectBySize ::
  "Env \<Rightarrow> SpaceKeeper \<Rightarrow> int \<Rightarrow> ((error + addr list) \<times> SpaceKeeper) outcome" where
  "selectBySize env sk targetSize =
     (let f = fillSpaceListBySize env [] (getIndexedWorkSpaces sk) 0 targetSize
      in if snd (snd f) then Returns (Inr (fst f), sk)
         else generateFillSpaceListBySize env sk (fst f) (fst (snd f)) targetSize)"

definition ConfigureBySize ::
  "Env \<Rightarrow> SpaceKeeper \<Rightarrow> int \<Rightarrow> string
     \<Rightarrow> ((error + WorkSpaceInfo list) \<times> SpaceKeeper) outcome" where
  "ConfigureBySize env sk targetSize password =
     (if started sk then Returns (Inl ErrSpaceKeeperIsRunning, sk)
      else if configuring sk \<noteq> 0 then Returns (Inl ErrSpaceKeeperIsConfiguring, sk)
      else if targetSize < BitLengthDiskSize env (hd usableBitLength)
      then Returns (Inl ErrConfigUnderSizeTarget, sk\<lparr>configuring := 0, configured := 0\<rparr>)
      else case wallet_Unlock env password of
        Some e \<Rightarrow> Returns (Inl e, sk\<lparr>configuring := 0, configured := 0\<rparr>)
      | None \<Rightarrow>
        (case selectBySize env (sk\<lparr>configuring := 1, configured := 0, walletLocked := False\<rparr>)
                targetSize of
          Panics \<Rightarrow> Panics
        | Hangs \<Rightarrow> Hangs
        | Returns r \<Rightarrow>
           (case fst r of
              Inl e \<Rightarrow> Returns (Inl e, (snd r)\<lparr>configuring := 0\<rparr>)
            | Inr resultList \<Rightarrow>
                if length resultList = 0
                then Returns (Inl ErrSpaceKeeperConfiguredNothing, (snd r)\<lparr>configuring := 0\<rparr>)
                else
                  let sk1 = (snd r)\<lparr>queue := pq_Reset (queue (snd r))\<rparr>;
                      sk2 = requeue ((clear_using sk1)\<lparr>workSpaceList := []\<rparr>) resultList False;
                      sk3 = sk2\<lparr>queue := pq_Reset (queue sk2)\<rparr>;
                      wsiList = map (\<lambda>a. ws_Info (heap sk3 a)) resultList
                  in Returns (Inr wsiList, sk3\<lparr>configured := 1, configuring := 0\<rparr>))))"

subsection \<open>Predicates of the statements\<close>

text \<open>The index invariant of one workspace: \<open>sid\<close> is live at address \<open>a\<close>, the
  workspace is in state \<open>s\<close>, and among the buckets of the states it is filed in that of
  \<open>s\<close> and in no other.\<close>

definition live_in_state :: "SpaceKeeper \<Rightarrow> string \<Rightarrow> addr \<Rightarrow> WorkSpaceState \<Rightarrow> bool" where
  "live_in_state sk sid a s =
     (map_of (workSpaceIndex sk allState) sid = Some a \<and> ws_state (heap sk a) = s \<and>
      list_all (\<lambda>s'. map_of (workSpaceIndex sk (StateIdx s')) sid = (if s' = s then Some a else None))
        [Registered, Plotting, Ready, Mining])"

text \<open>The invariant of \<open>workSpaceList\<close>: a live workspace is in use exactly when it is
  in the list, and no two entries of the list have the same sid.\<close>

definition using_iff_listed :: "SpaceKeeper \<Rightarrow> bool" where
  "using_iff_listed sk =
     (list_all (\<lambda>x. ws_using (heap sk (snd x)) = (snd x \<in> set (workSpaceList sk)))
        (workSpaceIndex sk allState) \<and>
      distinct (map (sidOf sk) (workSpaceList sk)))"

text \<open>The candidates of a bit length in the map of indexed workspaces, and the number of
  them that the fill by size takes: as many of the first ones as fit whole into what remains
  of the target size (all of them, were the disk size of the bit length not positive).\<close>

definition candidates :: "(int \<times> addr list) list \<Rightarrow> int \<Rightarrow> addr list" where
  "candidates srcMap bl = (case map_of srcMap bl of None \<Rightarrow> [] | Some spaces \<Rightarrow> spaces)"

definition fit_count :: "int \<Rightarrow> int \<Rightarrow> int \<Rightarrow> addr list \<Rightarrow> nat" where
  "fit_count sz targetSize currentSize spaces =
     (if sz \<le> 0 then length spaces
      else min (length spaces) (nat ((targetSize - currentSize) div sz)))"

text \<open>The indexed workspaces of a bit length, in the order of the bucket of all states.\<close>

definition indexed_of :: "SpaceKeeper \<Rightarrow> int \<Rightarrow> addr list" where
  "indexed_of sk bl =
     filter (\<lambda>a. sid_bitLength (ws_id (heap sk a)) = bl) (map snd (workSpaceIndex sk allState))"

text \<open>The disk sizes of the usable bit lengths are not negative, and the target size plus
  any of them is within the range of \<^verbatim>\<open>int\<close>: no addition of the fill wraps around.\<close>

definition sizes_in_range :: "Env \<Rightarrow> int \<Rightarrow> bool" where
  "sizes_in_range env targetSize =
     list_all (\<lambda>bl. 0 \<le> BitLengthDiskSize env bl \<and> targetSize + BitLengthDiskSize env bl \<le> MaxInt64)
       [28, 26, 24]"

text \<open>The body of the first loop of \<^verbatim>\<open>getIndexedWorkSpaces\<close>, and the workspaces
  queued under a bit length in its map of queues.\<close>

definition bucket_step :: "SpaceKeeper \<Rightarrow> string \<times> addr \<Rightarrow> (int \<times> plotterQueue) list \<Rightarrow> (int \<times> plotterQueue) list" where
  "bucket_step sk x qm =
     (let bl = sid_bitLength (ws_id (heap sk (snd x)));
          qws = newQueuedWorkSpace (snd x) False
      in case map_of qm bl of
           Some q \<Rightarrow> AList.update bl (pq_Push q qws (qws_priority (heap sk) qws)) qm
         | None \<Rightarrow> AList.update bl (pq_Push newPlotterQueue qws (qws_priority (heap sk) qws)) qm)"

definition queued_of :: "(int \<times> plotterQueue) list \<Rightarrow> int \<Rightarrow> addr list" where
  "queued_of qm bl =
     (case map_of qm bl of None \<Rightarrow> [] | Some q \<Rightarrow> map (\<lambda>x. qws_ws (fst x)) (pq_items q))"

subsection \<open>Example states\<close>

text \<open>A started SpaceKeeper with one workspace of public key \<open>A\<close> and bit length 24,
  in use, in a given state, with a pending job in the queue; and collaborators whose plot
  backend fails, with disk sizes 10, 40 and 160 for the bit lengths 24, 26 and 28.\<close>

definition ex_ws :: "WorkSpaceState \<Rightarrow> WorkSpace" where
  "ex_ws st =
     \<lparr>ws_id = \<lparr>sid_ordinal = 0, sid_pubKey = ''A'', sid_bitLength = 24, sid_String = ''A-24''\<rparr>,
      ws_state = st, ws_using = True\<rparr>"

definition ex_sk :: "WorkSpaceState \<Rightarrow> SpaceKeeper" where
  "ex_sk st =
     \<lparr>started = True, configuring = 0, configured = 1, allowGenerateNewSpace = False,
      dbDirs = [''d''], dbType = ''t'', heap = (\<lambda>a. ex_ws st), nextAddr = 1,
      workSpaceIndex = (\<lambda>k. if k = allState \<or> k = StateIdx st then [(''A-24'', 0)] else []),
      workSpaceList = [0],
      queue = \<lparr>pq_items = [(newQueuedWorkSpace 0 False, (0, 24, 0))], pq_popped = None\<rparr>,
      newQueuedWorkSpaceCh = [], proofCache = [], walletIssued = 0, walletLocked = False\<rparr>"

definition ex_env :: Env where
  "ex_env =
     \<lparr>wallet_GenerateNewPublicKey = (\<lambda>n. Inl (ErrCollaborator ''wallet'')),
      wallet_SignMessage = (\<lambda>k h. Inr (k @ h)),
      wallet_Unlock = (\<lambda>p. None),
      disk_Usage = (\<lambda>d. Inr 1000),
      NewWorkSpace = (\<lambda>t d n k b. Inl (ErrCollaborator ''backend'')),
      NewSpaceID =
        (\<lambda>n k b. \<lparr>sid_ordinal = n, sid_pubKey = k, sid_bitLength = b,
                  sid_String = k @ (if b = 24 then ''-24'' else if b = 26 then ''-26'' else ''-28'')\<rparr>),
      db_GetProof = (\<lambda>w c. ('''', Some (ErrCollaborator ''db''))),
      ws_StopPlot = (\<lambda>w. None),
      ws_Delete = (\<lambda>w. None),
      BitLengthDiskSize =
        (\<lambda>b. if b = 24 then 10 else if b = 26 then 40 else if b = 28 then 160 else 0),
      MinDiskSize = 10,
      generateInitialIndex = (\<lambda>s. (None, s))\<rparr>"

text \<open>A stopped SpaceKeeper with two workspaces: \<open>A-24\<close>, ready and in use, and
  \<open>B-24\<close>, registered and not in use; the same with nothing indexed; and the state after
  a planner has selected \<open>B-24\<close> alone.\<close>

definition ex_ws2 :: WorkSpace where
  "ex_ws2 =
     \<lparr>ws_id = \<lparr>sid_ordinal = 1, sid_pubKey = ''B'', sid_bitLength = 24, sid_String = ''B-24''\<rparr>,
      ws_state = Registered, ws_using = False\<rparr>"

definition ex_sk2 :: SpaceKeeper where
  "ex_sk2 =
     \<lparr>started = False, configuring = 0, configured = 1, allowGenerateNewSpace = False,
      dbDirs = [''d''], dbType = ''t'',
      heap = (\<lambda>a. if a = 0 then ex_ws Ready else ex_ws2), nextAddr = 2,
      workSpaceIndex =
        (\<lambda>k. if k = allState then [(''A-24'', 0), (''B-24'', 1)]
             else if k = StateIdx Ready then [(''A-24'', 0)]
             else if k = StateIdx Registered then [(''B-24'', 1)] else []),
      workSpaceList = [0], queue = newPlotterQueue,
      newQueuedWorkSpaceCh = [], proofCache = [], walletIssued = 0, walletLocked = False\<rparr>"


definition ex_sk2_after :: SpaceKeeper where
  "ex_sk2_after =
     ex_sk2\<lparr>workSpaceList := [1], heap := (heap ex_sk2)(1 := ex_ws2\<lparr>ws_using := True\<rparr>)\<rparr>"

text \<open>The stopped SpaceKeeper with a third workspace, \<open>C-28\<close>, ready and not in use.\<close>

definition ex_ws3 :: WorkSpace where
  "ex_ws3 =
     \<lparr>ws_id = \<lparr>sid_ordinal = 2, sid_pubKey = ''C'', sid_bitLength = 28, sid_String = ''C-28''\<rparr>,
      ws_state = Ready, ws_using = False\<rparr>"

definition ex_sk3 :: SpaceKeeper where
  "ex_sk3 =
     ex_sk2\<lparr>heap := (\<lambda>a. if a = 0 then ex_ws Ready else if a = 1 then ex_ws2 else ex_ws3),
            nextAddr := 3,
            workSpaceIndex :=
              (\<lambda>k. if k = allState then [(''A-24'', 0), (''B-24'', 1), (''C-28'', 2)]
                   else if k = StateIdx Ready then [(''A-24'', 0), (''C-28'', 2)]
                   else if k = StateIdx Registered then [(''B-24'', 1)] else [])\<rparr>"


lemmas ex_defs = ex_sk2_def ex_ws2_def ex_ws_def ex_env_def
lemmas pq_defs = newPlotterQueue_def pq_Push_def pq_Reset_def qws_priority_def newQueuedWorkSpace_def
lemmas ix_defs = index_Get_def index_Set_def index_Delete_def wsm_Get_def wsm_Set_def wsm_Delete_def

section \<open>Theorems\<close>

subsection \<open>Action verbs on an unknown or unused workspace\<close>

lemma not_known_using:
  "map_of (workSpaceIndex sk allState) sid = None \<or>
   (\<exists>a. map_of (workSpaceIndex sk allState) sid = Some a \<and> \<not> ws_using (heap sk a))
   \<Longrightarrow> \<not> known_using sk sid"
  by (auto simp: known_using_def index_Get_def wsm_Get_def)

text \<open>
  C2. For each of the five verbs and every sid: when the bucket of all states has no
  workspace under the sid, or the workspace it has is not in use, the verb returns
  \<open>ErrWorkSpaceDoesNotExist\<close> (and changes nothing), called directly or through
  \<open>ActOnWorkSpace\<close>.
\<close>

theorem verbs_unknown_sid:
  assumes "map_of (workSpaceIndex sk allState) sid = None \<or>
     (\<exists>a. map_of (workSpaceIndex sk allState) sid = Some a \<and> \<not> ws_using (heap sk a))"
  shows "PlotWS sk sid = Returns (Some ErrWorkSpaceDoesNotExist, sk) \<and>
         MineWS sk sid = Returns (Some ErrWorkSpaceDoesNotExist, sk) \<and>
         StopWS env sk sid = Returns (Some ErrWorkSpaceDoesNotExist, sk) \<and>
         RemoveWS sk sid = Returns (Some ErrWorkSpaceDoesNotExist, sk) \<and>
         DeleteWS env sk sid = Returns (Some ErrWorkSpaceDoesNotExist, sk) \<and>
         ActOnWorkSpace env sk sid Plot = Returns (Some ErrWorkSpaceDoesNotExist, sk) \<and>
         ActOnWorkSpace env sk sid Mine = Returns (Some ErrWorkSpaceDoesNotExist, sk) \<and>
         ActOnWorkSpace env sk sid Stop = Returns (Some ErrWorkSpaceDoesNotExist, sk) \<and>
         ActOnWorkSpace env sk sid Remove = Returns (Some ErrWorkSpaceDoesNotExist, sk) \<and>
         ActOnWorkSpace env sk sid Delete = Returns (Some ErrWorkSpaceDoesNotExist, sk)"
proof -
  have n: "\<not> known_using sk sid" using assms by (rule not_known_using)
  then show ?thesis
    by (simp add: PlotWS_def MineWS_def StopWS_def RemoveWS_def DeleteWS_def)
qed

theorem verbs_unknown_sid_witness:
  "PlotWS (ex_sk Ready) ''Z'' = Returns (Some ErrWorkSpaceDoesNotExist, ex_sk Ready) \<and>
   DeleteWS ex_env (ex_sk Ready) ''Z'' = Returns (Some ErrWorkSpaceDoesNotExist, ex_sk Ready) \<and>
   map_of (workSpaceIndex (ex_sk Ready) allState) ''Z'' = None"
proof -
  have h: "map_of (workSpaceIndex (ex_sk Ready) allState) ''Z'' = None"
    by (simp add: ex_sk_def)
  from verbs_unknown_sid [of "ex_sk Ready" "''Z''" ex_env, OF disjI1 [OF h]] h
  show ?thesis by simp
qed

subsection \<open>Signing\<close>

text \<open>
  C9. \<open>SignHash\<close> returns \<open>ErrWorkSpaceDoesNotExist\<close> when the sid is absent from the
  bucket of all states. For a sid that is present it returns what the wallet's
  \<open>SignMessage\<close> returns for the public key of the workspace: whatever the \<open>using\<close> flag
  of the workspace, whether the service is started or not, whether the wallet is locked
  or not. So, the wallet's own answer apart, the error is returned exactly for an absent
  sid.
\<close>

theorem SignHash_delegates:
  "(map_of (workSpaceIndex sk allState) sid = None \<longrightarrow>
      SignHash env sk sid hash = Inl ErrWorkSpaceDoesNotExist) \<and>
   (\<forall>a. map_of (workSpaceIndex sk allState) sid = Some a \<longrightarrow>
      (\<forall>u st lk.
         SignHash env (set_using (sk\<lparr>started := st, walletLocked := lk\<rparr>) a u) sid hash
           = wallet_SignMessage env (sid_pubKey (ws_id (heap sk a))) hash) \<and>
      SignHash env sk sid hash = wallet_SignMessage env (sid_pubKey (ws_id (heap sk a))) hash \<and>
      (wallet_SignMessage env (sid_pubKey (ws_id (heap sk a))) hash \<noteq> Inl ErrWorkSpaceDoesNotExist
         \<longrightarrow> SignHash env sk sid hash \<noteq> Inl ErrWorkSpaceDoesNotExist))"
  by (auto simp: SignHash_def set_using_def)

theorem SignHash_delegates_witness:
  "SignHash ex_env (ex_sk Ready) ''Z'' ''h'' = Inl ErrWorkSpaceDoesNotExist \<and>
   SignHash ex_env (set_using ((ex_sk Ready)\<lparr>started := False, walletLocked := True\<rparr>) 0 False)
     ''A-24'' ''h'' = Inr ''Ah'' \<and>
   SignHash ex_env (ex_sk Ready) ''A-24'' ''h'' \<noteq> Inl ErrWorkSpaceDoesNotExist"
proof -
  have z: "map_of (workSpaceIndex (ex_sk Ready) allState) ''Z'' = None"
    by (simp add: ex_sk_def)
  have a: "map_of (workSpaceIndex (ex_sk Ready) allState) ''A-24'' = Some 0"
    by (simp add: ex_sk_def)
  have w: "wallet_SignMessage ex_env (sid_pubKey (ws_id (heap (ex_sk Ready) 0))) ''h'' = Inr ''Ah''"
    by (simp add: ex_env_def ex_sk_def ex_ws_def)
  from SignHash_delegates [of "ex_sk Ready" "''Z''" ex_env "''h''"] z
  have 1: "SignHash ex_env (ex_sk Ready) ''Z'' ''h'' = Inl ErrWorkSpaceDoesNotExist" by blast
  from SignHash_delegates [of "ex_sk Ready" "''A-24''" ex_env "''h''"] a w
  have 2: "SignHash ex_env (set_using ((ex_sk Ready)\<lparr>started := False, walletLocked := True\<rparr>) 0 False)
     ''A-24'' ''h'' = Inr ''Ah''"
    and 3: "SignHash ex_env (ex_sk Ready) ''A-24'' ''h'' \<noteq> Inl ErrWorkSpaceDoesNotExist"
    by auto
  from 1 2 3 show ?thesis by simp
qed

subsection \<open>Remove and Delete on a workspace that is plotting or mining\<close>

lemma live_in_state_buckets:
  assumes "live_in_state sk sid a s"
  shows "index_Get sk allState sid = Some a"
    and "index_Get sk (StateIdx s') sid = (if s' = s then Some a else None)"
  using assms by (cases s'; simp add: live_in_state_def index_Get_def wsm_Get_def)+

lemma live_known_using:
  "live_in_state sk sid a s \<Longrightarrow> ws_using (heap sk a) \<Longrightarrow> known_using sk sid"
  by (simp add: known_using_def live_in_state_buckets)

lemma pq_Delete_removes: "sid \<notin> set (pq_sids h (pq_Delete h pq sid))"
  by (auto simp: pq_sids_def pq_Delete_def)

lemma pq_Delete_changes:
  "sid \<in> set (pq_sids h pq) \<Longrightarrow> pq_Delete h pq sid \<noteq> pq"
  using pq_Delete_removes [of sid h pq] by auto

text \<open>
  C10. \<open>RemoveWS\<close> and \<open>DeleteWS\<close> delete the job of the sid from the plotter queue
  before they look at the state. Called on a live workspace in use whose state is Plotting
  or Mining, each returns \<open>ErrWorkSpaceIsNotStill\<close>, and the state it leaves differs from
  the state before in the queue only: the sid has no job in the queue any more (so the
  queue has changed if it had one), while the indexes, \<open>workSpaceList\<close> and the
  workspace with its state and \<open>using\<close> flag are as before.
\<close>

theorem remove_delete_not_still:
  assumes "live_in_state sk sid a s" and "ws_using (heap sk a)"
    and "s = Plotting \<or> s = Mining"
  shows "RemoveWS sk sid =
           Returns (Some ErrWorkSpaceIsNotStill, sk\<lparr>queue := pq_Delete (heap sk) (queue sk) sid\<rparr>) \<and>
         DeleteWS env sk sid =
           Returns (Some ErrWorkSpaceIsNotStill, sk\<lparr>queue := pq_Delete (heap sk) (queue sk) sid\<rparr>) \<and>
         sid \<notin> set (pq_sids (heap sk) (pq_Delete (heap sk) (queue sk) sid)) \<and>
         (sid \<in> set (pq_sids (heap sk) (queue sk)) \<longrightarrow>
            pq_Delete (heap sk) (queue sk) sid \<noteq> queue sk)"
proof -
  have k: "known_using sk sid" using assms(1,2) by (rule live_known_using)
  have r: "index_Get sk (StateIdx Registered) sid = None"
    and d: "index_Get sk (StateIdx Ready) sid = None"
    using assms(3) live_in_state_buckets(2) [OF assms(1)] by auto
  have st: "still_ws (sk\<lparr>queue := pq_Delete (heap sk) (queue sk) sid\<rparr>) sid = None"
    using r d by (simp add: still_ws_def index_Get_def)
  show ?thesis
    using k st pq_Delete_removes pq_Delete_changes
    by (simp add: RemoveWS_def DeleteWS_def)
qed

theorem remove_delete_not_still_witness:
  "RemoveWS (ex_sk Mining) ''A-24'' =
     Returns (Some ErrWorkSpaceIsNotStill, (ex_sk Mining)\<lparr>queue := newPlotterQueue\<rparr>) \<and>
   DeleteWS ex_env (ex_sk Mining) ''A-24'' =
     Returns (Some ErrWorkSpaceIsNotStill, (ex_sk Mining)\<lparr>queue := newPlotterQueue\<rparr>) \<and>
   pq_sids (heap (ex_sk Mining)) (queue (ex_sk Mining)) = [''A-24''] \<and>
   newPlotterQueue \<noteq> queue (ex_sk Mining)"
proof -
  have l: "live_in_state (ex_sk Mining) ''A-24'' 0 Mining"
    by (simp add: live_in_state_def ex_sk_def ex_ws_def)
  have u: "ws_using (heap (ex_sk Mining) 0)"
    by (simp add: ex_sk_def ex_ws_def)
  have q: "pq_Delete (heap (ex_sk Mining)) (queue (ex_sk Mining)) ''A-24'' = newPlotterQueue"
    by (simp add: pq_Delete_def ex_sk_def ex_ws_def newPlotterQueue_def newQueuedWorkSpace_def)
  have s: "pq_sids (heap (ex_sk Mining)) (queue (ex_sk Mining)) = [''A-24'']"
    by (simp add: pq_sids_def ex_sk_def ex_ws_def newQueuedWorkSpace_def)
  from remove_delete_not_still [OF l u, of ex_env] q s
  show ?thesis by simp
qed

subsection \<open>Proofs for a filter that matches nothing\<close>

text \<open>
  C7. On a started SpaceKeeper, \<open>GetProofs\<close> with flags that match no workspace of
  \<open>workSpaceList\<close> returns (it neither hangs on the wait group nor panics), with an empty
  list of proofs, no error and the SpaceKeeper unchanged.
\<close>

theorem GetProofs_no_match:
  assumes "started sk" and "getWsByFlags sk (workSpaceList sk) flags = []"
  shows "GetProofs env sk flags challenge = Returns (Inr [], sk)"
  using assms by (simp add: GetProofs_def getProofs_def)

theorem GetProofs_no_match_witness:
  "GetProofs ex_env (ex_sk Ready) (StateFlags [Registered, Plotting]) (Hash ''00'')
     = Returns (Inr [], ex_sk Ready)"
proof -
  have s: "started (ex_sk Ready)" by (simp add: ex_sk_def)
  have g: "getWsByFlags (ex_sk Ready) (workSpaceList (ex_sk Ready))
             (StateFlags [Registered, Plotting]) = []"
    by (simp add: getWsByFlags_def ex_sk_def ex_ws_def)
  from GetProofs_no_match [OF s g] show ?thesis .
qed

subsection \<open>An error of the plot backend is cached in the proof record\<close>

lemma cc_Add_hit: "map_of (cc_Add c k v) k = Some v"
  by (simp add: cc_Add_def proofCacheSize_def take_Cons')

lemma cc_Get_miss: "map_of c k = None \<Longrightarrow> cc_Get c k = (None, c)"
  by (simp add: cc_Get_def)

lemma cc_Get_hit: "map_of c k = Some v \<Longrightarrow> fst (cc_Get c k) = Some v"
  by (simp add: cc_Get_def)

text \<open>
  C8. On a started SpaceKeeper, for a sid known to the bucket of all states whose
  workspace is in use and whose proof for the challenge is not in the cache: whatever the
  plot backend answers, error or not, \<open>GetProof\<close> returns no error of its own and the
  record built from the answer, whose \<open>Error\<close> field is the backend's error; the record is
  added to the cache under the key of sid and challenge, the same way for an error as for a
  proof; and the next \<open>GetProof\<close> for the sid and the challenge returns that record whatever
  the backend would answer then: it is served from the cache.
\<close>

theorem GetProof_backend_error:
  assumes "started sk" and "map_of (workSpaceIndex sk allState) sid = Some a"
    and "ws_using (heap sk a)"
    and "map_of (proofCache sk) (sid_String (ws_id (heap sk a)) @ Hash_String challenge) = None"
    and "db_GetProof env (heap sk a) challenge = (p, err)"
    and "sk' = sk\<lparr>proofCache := cc_Add (proofCache sk)
                   (sid_String (ws_id (heap sk a)) @ Hash_String challenge)
                   (proof_record (heap sk a) (p, err))\<rparr>"
  shows "GetProof env sk sid challenge = (Inr (proof_record (heap sk a) (p, err)), sk') \<and>
         proof_Error (proof_record (heap sk a) (p, err)) = err \<and>
         map_of (proofCache sk') (sid_String (ws_id (heap sk a)) @ Hash_String challenge)
           = Some (proof_record (heap sk a) (p, err)) \<and>
         (\<forall>env'. fst (GetProof env' sk' sid challenge) = Inr (proof_record (heap sk a) (p, err)))"
proof -
  let ?k = "sid_String (ws_id (heap sk a)) @ Hash_String challenge"
  let ?r = "proof_record (heap sk a) (p, err)"
  have 1: "GetProof env sk sid challenge = (Inr ?r, sk')"
    using assms by (simp add: GetProof_def getProof_def cc_Get_miss Let_def)
  have 2: "map_of (proofCache sk') ?k = Some ?r"
    using assms(6) by (simp add: cc_Add_hit)
  have 3: "fst (GetProof env' sk' sid challenge) = Inr ?r" for env'
  proof -
    have "fst (cc_Get (proofCache sk') ?k) = Some ?r" using 2 by (rule cc_Get_hit)
    then obtain c where "cc_Get (proofCache sk') ?k = (Some ?r, c)"
      by (cases "cc_Get (proofCache sk') ?k") auto
    then show ?thesis
      using assms(1,2,3,6) by (simp add: GetProof_def getProof_def Let_def)
  qed
  show ?thesis using 1 2 3 by (simp add: proof_record_def)
qed

theorem GetProof_backend_error_witness:
  "GetProof ex_env (ex_sk Ready) ''A-24'' (Hash ''00'')
     = (Inr (proof_record (ex_ws Ready) ('''', Some (ErrCollaborator ''db''))),
        (ex_sk Ready)\<lparr>proofCache := [(''A-2400'', proof_record (ex_ws Ready) ('''', Some (ErrCollaborator ''db'')))]\<rparr>) \<and>
   fst (GetProof (ex_env\<lparr>db_GetProof := (\<lambda>w c. (''p'', None))\<rparr>)
          ((ex_sk Ready)\<lparr>proofCache := [(''A-2400'', proof_record (ex_ws Ready) ('''', Some (ErrCollaborator ''db'')))]\<rparr>)
          ''A-24'' (Hash ''00''))
     = Inr (proof_record (ex_ws Ready) ('''', Some (ErrCollaborator ''db'')))"
proof -
  let ?r = "proof_record (ex_ws Ready) ('''', Some (ErrCollaborator ''db''))"
  let ?sk' = "(ex_sk Ready)\<lparr>proofCache := [(''A-2400'', ?r)]\<rparr>"
  have s: "started (ex_sk Ready)" by (simp add: ex_sk_def)
  have a: "map_of (workSpaceIndex (ex_sk Ready) allState) ''A-24'' = Some 0" by (simp add: ex_sk_def)
  have u: "ws_using (heap (ex_sk Ready) 0)" by (simp add: ex_sk_def ex_ws_def)
  have h: "heap (ex_sk Ready) 0 = ex_ws Ready" by (simp add: ex_sk_def)
  have m: "map_of (proofCache (ex_sk Ready))
             (sid_String (ws_id (heap (ex_sk Ready) 0)) @ Hash_String (Hash ''00'')) = None"
    by (simp add: ex_sk_def)
  have d: "db_GetProof ex_env (heap (ex_sk Ready) 0) (Hash ''00'') = ('''', Some (ErrCollaborator ''db''))"
    by (simp add: ex_env_def)
  have e: "?sk' = (ex_sk Ready)\<lparr>proofCache := cc_Add (proofCache (ex_sk Ready))
                   (sid_String (ws_id (heap (ex_sk Ready) 0)) @ Hash_String (Hash ''00''))
                   (proof_record (heap (ex_sk Ready) 0) ('''', Some (ErrCollaborator ''db'')))\<rparr>"
    by (simp add: h) (simp add: ex_sk_def ex_ws_def cc_Add_def proofCacheSize_def)
  from GetProof_backend_error [OF s a u m d e] h
  show ?thesis by simp
qed

subsection \<open>Plot twice\<close>





subsection \<open>The invariant of the list of used workspaces\<close>

text \<open>
  C1. The invariant (a live workspace is in use exactly when it is in \<open>workSpaceList\<close>)
  holds before and fails after \<open>ConfigureByPubKey\<close> and after \<open>ConfigureByFlags\<close>: both
  empty the list without clearing the \<open>using\<close> flags of the workspaces that were in it,
  as \<open>ConfigureByBitLength\<close> and \<open>ConfigureBySize\<close> do. Here \<open>A-24\<close> is in use and no
  longer listed after either call.
\<close>

theorem Configure_leaves_using_set:
  "using_iff_listed ex_sk2 \<and>
   ConfigureByPubKey ex_env ex_sk2 [(''B'', 24)] [(''B'', 1)] False False
     = Returns (Inr [ws_Info (ex_ws2\<lparr>ws_using := True\<rparr>)], ex_sk2_after\<lparr>configured := 1\<rparr>) \<and>
   ConfigureByFlags ex_sk2 (StateFlags [Registered]) False False
     = (Inr [ws_Info (ex_ws2\<lparr>ws_using := True\<rparr>)], ex_sk2_after\<lparr>configured := 0\<rparr>) \<and>
   map_of (workSpaceIndex ex_sk2_after allState) ''A-24'' = Some 0 \<and>
   ws_using (heap ex_sk2_after 0) \<and>
   0 \<notin> set (workSpaceList ex_sk2_after) \<and>
   \<not> using_iff_listed (ex_sk2_after\<lparr>configured := 1\<rparr>) \<and>
   \<not> using_iff_listed (ex_sk2_after\<lparr>configured := 0\<rparr>)"
proof -
  have 1: "using_iff_listed ex_sk2"
    by (simp add: using_iff_listed_def ex_defs sidOf_def)
  have 2: "ConfigureByPubKey ex_env ex_sk2 [(''B'', 24)] [(''B'', 1)] False False
     = Returns (Inr [ws_Info (ex_ws2\<lparr>ws_using := True\<rparr>)], ex_sk2_after\<lparr>configured := 1\<rparr>)"
    by (simp add: ConfigureByPubKey_def generateFillSpaceListByPubKey_def checkOSDiskSize_def
        ordinal_of_def requeue_def reset_unless_exec_def useWorkSpace_def set_using_def sidOf_def
        ws_Info_def ex_sk2_after_def ex_defs pq_defs ix_defs)
  have 3: "ConfigureByFlags ex_sk2 (StateFlags [Registered]) False False
     = (Inr [ws_Info (ex_ws2\<lparr>ws_using := True\<rparr>)], ex_sk2_after\<lparr>configured := 0\<rparr>)"
    by (simp add: ConfigureByFlags_def requeue_def reset_unless_exec_def useWorkSpace_def
        set_using_def sidOf_def ws_Info_def ex_sk2_after_def ex_defs pq_defs ix_defs)
  have 4: "map_of (workSpaceIndex ex_sk2_after allState) ''A-24'' = Some 0"
    and 5: "ws_using (heap ex_sk2_after 0)"
    and 6: "0 \<notin> set (workSpaceList ex_sk2_after)"
    by (simp_all add: ex_sk2_after_def ex_defs)
  have 7: "\<not> using_iff_listed (ex_sk2_after\<lparr>configured := c\<rparr>)" for c
    by (simp add: using_iff_listed_def ex_sk2_after_def ex_defs)
  from 1 2 3 4 5 6 7 show ?thesis by simp
qed

subsection \<open>Planner calls that select nothing\<close>










subsection \<open>Resetting the data directories\<close>

text \<open>
  C5. With the directories \<open>a, b\<close> seeded and the service stopped,
  \<open>ResetDBDirs\<close> accepts \<open>a, a\<close>, which is not the same set of directories (nor the
  same multiset): the comparison checks the lengths and that every new directory is among
  the old ones, not the converse.
\<close>

theorem ResetDBDirs_accepts_duplicate:
  "ResetDBDirs ex_env (ex_sk2\<lparr>dbDirs := [''a'', ''b'']\<rparr>) [''a'', ''a'']
     = (None, ex_sk2\<lparr>dbDirs := [''a'', ''b'']\<rparr>) \<and>
   set [''a'', ''a''] \<noteq> set [''a'', ''b''] \<and>
   \<not> started (ex_sk2\<lparr>dbDirs := [''a'', ''b'']\<rparr>)"
  by (simp add: ResetDBDirs_def strSliceEqual_def ex_sk2_def)

subsection \<open>The fill by size\<close>

lemma wrap64_id: "MinInt64 \<le> x \<Longrightarrow> x \<le> MaxInt64 \<Longrightarrow> wrap64 x = x"
  by (simp add: wrap64_def MinInt64_def MaxInt64_def)

lemma fillBySize_spaces_zero:
  "0 \<le> snd acc \<Longrightarrow> snd acc \<le> targetSize \<Longrightarrow> targetSize \<le> MaxInt64 \<Longrightarrow>
   fillBySize_spaces 0 targetSize spaces acc = (fst acc @ spaces, snd acc)"
proof (induction spaces arbitrary: acc)
  case Nil
  then show ?case by simp
next
  case (Cons x xs)
  from Cons.prems have w: "wrap64 (snd acc) = snd acc"
    by (intro wrap64_id) (simp_all add: MinInt64_def)
  from Cons.IH [of "(fst acc @ [x], snd acc)"] Cons.prems w show ?case
    by (simp add: Let_def)
qed

lemma fillBySize_spaces_fit:
  assumes "0 < sz" and "targetSize + sz \<le> MaxInt64"
  shows "0 \<le> snd acc \<Longrightarrow> snd acc \<le> targetSize \<Longrightarrow>
         fillBySize_spaces sz targetSize spaces acc
           = (fst acc @ take (fit_count sz targetSize (snd acc) spaces) spaces,
              snd acc + int (fit_count sz targetSize (snd acc) spaces) * sz)"
proof (induction spaces arbitrary: acc)
  case Nil
  then show ?case by (simp add: fit_count_def)
next
  case (Cons x xs)
  let ?c = "snd acc"
  from Cons.prems assms have w: "wrap64 (?c + sz) = ?c + sz"
    by (intro wrap64_id) (simp_all add: MinInt64_def)
  from Cons.prems assms have w': "wrap64 ?c = ?c"
    by (intro wrap64_id) (simp_all add: MinInt64_def)
  show ?case
  proof (cases "?c + sz > targetSize")
    case True
    with Cons.prems assms have "(targetSize - ?c) div sz = 0"
      by (simp add: div_pos_pos_trivial)
    with assms have z: "fit_count sz targetSize ?c ys = 0" for ys
      by (simp add: fit_count_def)
    from Cons.IH [of "(fst acc, ?c)"] Cons.prems True z w w' show ?thesis
      by (simp add: Let_def)
  next
    case False
    then have le: "?c + sz \<le> targetSize" by simp
    have "(targetSize - ?c) div sz = (targetSize - (?c + sz)) div sz + 1"
      using assms div_add_self2 [of sz "targetSize - (?c + sz)"] by (simp add: algebra_simps)
    moreover have "0 \<le> (targetSize - (?c + sz)) div sz"
      using le assms by (simp add: pos_imp_zdiv_nonneg_iff)
    ultimately have n: "nat ((targetSize - ?c) div sz) = Suc (nat ((targetSize - (?c + sz)) div sz))"
      by simp
    have f: "fit_count sz targetSize ?c (x # xs) = Suc (fit_count sz targetSize (?c + sz) xs)"
      using assms by (simp add: fit_count_def n)
    have p: "0 \<le> ?c + sz" using Cons.prems assms by simp
    from Cons.IH [of "(fst acc @ [x], ?c + sz)"] le False f w p show ?thesis
      by (simp add: Let_def algebra_simps)
  qed
qed

lemma fillBySize_spaces_take:
  assumes "0 \<le> sz" and "targetSize + sz \<le> MaxInt64"
    and "0 \<le> snd acc" and "snd acc \<le> targetSize"
  shows "fillBySize_spaces sz targetSize spaces acc
           = (fst acc @ take (fit_count sz targetSize (snd acc) spaces) spaces,
              snd acc + int (fit_count sz targetSize (snd acc) spaces) * sz)"
proof (cases "0 < sz")
  case True
  then show ?thesis using assms(2,3,4) by (rule fillBySize_spaces_fit)
next
  case False
  with assms(1) have z: "sz = 0" by simp
  with assms show ?thesis
    by (simp add: fillBySize_spaces_zero fit_count_def)
qed

lemma fit_count_bound:
  assumes "0 \<le> sz" and "c \<le> targetSize"
  shows "c + int (fit_count sz targetSize c spaces) * sz \<le> targetSize"
proof (cases "0 < sz")
  case True
  have "0 \<le> (targetSize - c) div sz"
    using assms True by (simp add: pos_imp_zdiv_nonneg_iff)
  then have "int (fit_count sz targetSize c spaces) \<le> (targetSize - c) div sz"
    unfolding fit_count_def using True by simp
  then have "int (fit_count sz targetSize c spaces) * sz \<le> ((targetSize - c) div sz) * sz"
    using True by (simp add: mult_right_mono)
  moreover have "(targetSize - c) div sz * sz + (targetSize - c) mod sz = targetSize - c"
    by simp
  moreover have "0 \<le> (targetSize - c) mod sz"
    using True by simp
  ultimately show ?thesis by linarith
next
  case False
  with assms show ?thesis by simp
qed

lemma fillBySize_loop_step:
  "fillBySize_loop env srcMap targetSize (bl # bls) acc
     = fillBySize_loop env srcMap targetSize bls
         (fillBySize_spaces (BitLengthDiskSize env bl) targetSize (candidates srcMap bl) acc)"
  by (simp add: candidates_def split: option.splits)

lemma mset_pq_insert: "mset (pq_insert q p xs) = add_mset (q, p) (mset xs)"
  by (induction xs) auto

lemma queued_of_Nil: "queued_of [] bl = []"
  by (simp add: queued_of_def)

lemma queued_of_step:
  "mset (queued_of (bucket_step sk x qm) bl)
     = (if sid_bitLength (ws_id (heap sk (snd x))) = bl then {#snd x#} else {#}) + mset (queued_of qm bl)"
  by (auto simp: queued_of_def bucket_step_def Let_def update_conv pq_Push_def mset_pq_insert
        newQueuedWorkSpace_def newPlotterQueue_def split: option.splits)

lemma queued_of_fold:
  "mset (queued_of (fold (bucket_step sk) xs qm) bl)
     = mset (filter (\<lambda>a. sid_bitLength (ws_id (heap sk a)) = bl) (map snd xs)) + mset (queued_of qm bl)"
  by (induction xs arbitrary: qm) (auto simp: queued_of_step)

lemma getIndexedWorkSpaces_fold:
  "getIndexedWorkSpaces sk
     = map (\<lambda>e. (fst e, map (\<lambda>x. qws_ws (fst x)) (pq_items (snd e))))
         (fold (bucket_step sk) (workSpaceIndex sk allState) [])"
  by (simp add: getIndexedWorkSpaces_def bucket_step_def [abs_def] Let_def)

lemma candidates_queued:
  "candidates (map (\<lambda>e. (fst e, map (\<lambda>x. qws_ws (fst x)) (pq_items (snd e)))) qm) bl = queued_of qm bl"
  by (induction qm) (auto simp: candidates_def queued_of_def)

lemma candidates_indexed:
  "mset (candidates (getIndexedWorkSpaces sk) bl) = mset (indexed_of sk bl)"
  by (simp add: getIndexedWorkSpaces_fold candidates_queued queued_of_fold indexed_of_def
        queued_of_Nil)

lemma info_set_using: "ws_Info (heap (set_using s a b) x) = ws_Info (heap s x)"
  by (simp add: set_using_def ws_Info_def)

lemma info_useWorkSpace: "ws_Info (heap (useWorkSpace s a) x) = ws_Info (heap s x)"
  by (simp add: useWorkSpace_def set_using_def ws_Info_def)

lemma info_fold_set_using:
  "ws_Info (heap (fold (\<lambda>a s. set_using s a False) xs s) x) = ws_Info (heap s x)"
  by (induction xs arbitrary: s) (simp_all add: info_set_using)

lemma info_clear_using: "ws_Info (heap (clear_using s) x) = ws_Info (heap s x)"
  by (simp add: clear_using_def info_fold_set_using)

lemma info_fold_use:
  "ws_Info (heap (fold (\<lambda>e s. useWorkSpace (s\<lparr>queue := f s e\<rparr>) (qws_ws (fst e))) xs s) x)
     = ws_Info (heap s x)"
  by (induction xs arbitrary: s) (simp_all add: info_useWorkSpace)

lemma info_requeue: "ws_Info (heap (requeue s rl b) x) = ws_Info (heap s x)"
  unfolding requeue_def Let_def
  by (rule info_fold_use [where f = "\<lambda>s e. pq_Push (queue s) (fst e) (qws_priority (heap s) (fst e))"])

lemma fillSpaceListBySize_closed:
  fixes env :: Env and targetSize currentSize :: int and srcMap :: "(int \<times> addr list) list"
  assumes r: "sizes_in_range env targetSize"
    and c: "0 \<le> currentSize" "currentSize \<le> targetSize"
  defines "n28 \<equiv> fit_count (BitLengthDiskSize env 28) targetSize currentSize (candidates srcMap 28)"
  defines "c28 \<equiv> currentSize + int n28 * BitLengthDiskSize env 28"
  defines "n26 \<equiv> fit_count (BitLengthDiskSize env 26) targetSize c28 (candidates srcMap 26)"
  defines "c26 \<equiv> c28 + int n26 * BitLengthDiskSize env 26"
  defines "n24 \<equiv> fit_count (BitLengthDiskSize env 24) targetSize c26 (candidates srcMap 24)"
  defines "c24 \<equiv> c26 + int n24 * BitLengthDiskSize env 24"
  shows "fillSpaceListBySize env dstList srcMap currentSize targetSize
            = (dstList @ take n28 (candidates srcMap 28) @ take n26 (candidates srcMap 26)
                 @ take n24 (candidates srcMap 24),
               c24, c24 = targetSize \<or> targetSize - c24 < MinDiskSize env)
         \<and> c24 \<le> targetSize"
proof -
  from r have z: "0 \<le> BitLengthDiskSize env 28" "0 \<le> BitLengthDiskSize env 26"
      "0 \<le> BitLengthDiskSize env 24"
    and m: "targetSize + BitLengthDiskSize env 28 \<le> MaxInt64"
      "targetSize + BitLengthDiskSize env 26 \<le> MaxInt64"
      "targetSize + BitLengthDiskSize env 24 \<le> MaxInt64"
    by (simp_all add: sizes_in_range_def)
  have b28: "c28 \<le> targetSize" and p28: "0 \<le> c28"
    unfolding c28_def n28_def using c z by (simp_all add: fit_count_bound)
  have b26: "c26 \<le> targetSize" and p26: "0 \<le> c26"
    unfolding c26_def n26_def using b28 p28 z by (simp_all add: fit_count_bound)
  have b24: "c24 \<le> targetSize" and p24: "0 \<le> c24"
    unfolding c24_def n24_def using b26 p26 z by (simp_all add: fit_count_bound)
  have s28: "fillBySize_spaces (BitLengthDiskSize env 28) targetSize (candidates srcMap 28)
               (dstList, currentSize) = (dstList @ take n28 (candidates srcMap 28), c28)"
    using c z m by (simp add: fillBySize_spaces_take n28_def c28_def)
  have s26: "fillBySize_spaces (BitLengthDiskSize env 26) targetSize (candidates srcMap 26)
               (dstList @ take n28 (candidates srcMap 28), c28)
             = (dstList @ take n28 (candidates srcMap 28) @ take n26 (candidates srcMap 26), c26)"
    using b28 p28 z m by (simp add: fillBySize_spaces_take n26_def c26_def)
  have s24: "fillBySize_spaces (BitLengthDiskSize env 24) targetSize (candidates srcMap 24)
               (dstList @ take n28 (candidates srcMap 28) @ take n26 (candidates srcMap 26), c26)
             = (dstList @ take n28 (candidates srcMap 28) @ take n26 (candidates srcMap 26)
                  @ take n24 (candidates srcMap 24), c24)"
    using b26 p26 z m by (simp add: fillBySize_spaces_take n24_def c24_def)
  have l: "fillBySize_loop env srcMap targetSize allowedBL (dstList, currentSize)
             = (dstList @ take n28 (candidates srcMap 28) @ take n26 (candidates srcMap 26)
                  @ take n24 (candidates srcMap 24), c24)"
    by (simp only: allowedBL_def usableBitLength_def rev.simps append.simps
          fillBySize_loop_step s28 s26 s24 fillBySize_loop.simps)
  have w: "wrap64 (targetSize - c24) = targetSize - c24"
    using b24 p24 m(3) z(3) by (intro wrap64_id) (simp_all add: MinInt64_def)
  have "fillSpaceListBySize env dstList srcMap currentSize targetSize
            = (dstList @ take n28 (candidates srcMap 28) @ take n26 (candidates srcMap 26)
                 @ take n24 (candidates srcMap 24),
               c24, c24 = targetSize \<or> targetSize - c24 < MinDiskSize env)"
    by (auto simp: fillSpaceListBySize_def l w Let_def)
  with b24 show ?thesis by simp
qed

text \<open>
  C4. On a stopped SpaceKeeper that is not being configured, \<open>ConfigureBySize\<close> with a
  target size below the disk size of bit length 24 returns \<open>ErrConfigUnderSizeTarget\<close>.
  Otherwise, once the wallet is unlocked, and with disk sizes for which no addition wraps
  around: the fill starts from the indexed workspaces, whose buckets hold, for each bit
  length, exactly the indexed workspaces of that bit length; it takes candidates of bit
  length 28, then 26, then 24; of each bit length it takes the first \<open>fit_count\<close>
  candidates, whole, and skips the others, which would raise the size above the target;
  the size it reaches is the sum of the sizes of what it took and is not above the target;
  it reports completion exactly when that size equals the target or is short of it by
  less than \<open>MinDiskSize\<close>. On completion the selection of \<open>ConfigureBySize\<close> is the list
  the fill took, and \<open>ConfigureBySize\<close> returns the infos of these workspaces in that
  order (or \<open>ErrSpaceKeeperConfiguredNothing\<close> for the empty list); otherwise the
  generation goes on from that list and that size.
\<close>

theorem ConfigureBySize_fill:
  assumes "\<not> started sk" and "configuring sk = 0"
  shows
   "(targetSize < BitLengthDiskSize env 24 \<longrightarrow>
       ConfigureBySize env sk targetSize password
         = Returns (Inl ErrConfigUnderSizeTarget, sk\<lparr>configuring := 0, configured := 0\<rparr>)) \<and>
    (\<not> targetSize < BitLengthDiskSize env 24 \<and> wallet_Unlock env password = None \<and>
     sizes_in_range env targetSize \<longrightarrow>
       (let sk1 = sk\<lparr>configuring := 1, configured := 0, walletLocked := False\<rparr>;
            srcMap = getIndexedWorkSpaces sk1;
            n28 = fit_count (BitLengthDiskSize env 28) targetSize 0 (candidates srcMap 28);
            c28 = int n28 * BitLengthDiskSize env 28;
            n26 = fit_count (BitLengthDiskSize env 26) targetSize c28 (candidates srcMap 26);
            c26 = c28 + int n26 * BitLengthDiskSize env 26;
            n24 = fit_count (BitLengthDiskSize env 24) targetSize c26 (candidates srcMap 24);
            c24 = c26 + int n24 * BitLengthDiskSize env 24;
            dst = take n28 (candidates srcMap 28) @ take n26 (candidates srcMap 26)
                    @ take n24 (candidates srcMap 24);
            finished = (c24 = targetSize \<or> targetSize - c24 < MinDiskSize env)
        in fillSpaceListBySize env [] srcMap 0 targetSize = (dst, c24, finished) \<and>
           c24 \<le> targetSize \<and>
           (finished \<longrightarrow> selectBySize env sk1 targetSize = Returns (Inr dst, sk1)) \<and>
           (\<not> finished \<longrightarrow>
              selectBySize env sk1 targetSize
                = generateFillSpaceListBySize env sk1 dst c24 targetSize) \<and>
           (finished \<and> dst = [] \<longrightarrow>
              ConfigureBySize env sk targetSize password
                = Returns (Inl ErrSpaceKeeperConfiguredNothing, sk1\<lparr>configuring := 0\<rparr>)) \<and>
           (finished \<and> dst \<noteq> [] \<longrightarrow>
              (\<exists>sk'. ConfigureBySize env sk targetSize password
                       = Returns (Inr (map (\<lambda>a. ws_Info (heap sk a)) dst), sk') \<and>
                     configured sk' = 1 \<and> configuring sk' = 0)))) \<and>
    (\<forall>bl. mset (candidates (getIndexedWorkSpaces
                  (sk\<lparr>configuring := 1, configured := 0, walletLocked := False\<rparr>)) bl)
            = mset (indexed_of sk bl))"
proof (intro conjI impI allI)
  assume "targetSize < BitLengthDiskSize env 24"
  with assms show "ConfigureBySize env sk targetSize password
        = Returns (Inl ErrConfigUnderSizeTarget, sk\<lparr>configuring := 0, configured := 0\<rparr>)"
    by (simp add: ConfigureBySize_def usableBitLength_def)
next
  assume h: "\<not> targetSize < BitLengthDiskSize env 24 \<and> wallet_Unlock env password = None \<and>
     sizes_in_range env targetSize"
  define sk1 where "sk1 = sk\<lparr>configuring := 1, configured := 0, walletLocked := False\<rparr>"
  define srcMap where "srcMap = getIndexedWorkSpaces sk1"
  define n28 where "n28 = fit_count (BitLengthDiskSize env 28) targetSize 0 (candidates srcMap 28)"
  define c28 where "c28 = int n28 * BitLengthDiskSize env 28"
  define n26 where "n26 = fit_count (BitLengthDiskSize env 26) targetSize c28 (candidates srcMap 26)"
  define c26 where "c26 = c28 + int n26 * BitLengthDiskSize env 26"
  define n24 where "n24 = fit_count (BitLengthDiskSize env 24) targetSize c26 (candidates srcMap 24)"
  define c24 where "c24 = c26 + int n24 * BitLengthDiskSize env 24"
  define dst where "dst = take n28 (candidates srcMap 28) @ take n26 (candidates srcMap 26)
                    @ take n24 (candidates srcMap 24)"
  define finished where "finished = (c24 = targetSize \<or> targetSize - c24 < MinDiskSize env)"
  from h have r: "sizes_in_range env targetSize" by simp
  then have "0 \<le> BitLengthDiskSize env 24" by (simp add: sizes_in_range_def)
  with h have t: "0 \<le> targetSize" by simp
  from fillSpaceListBySize_closed [OF r order_refl t, where srcMap = srcMap and dstList = "[]"]
  have f: "fillSpaceListBySize env [] srcMap 0 targetSize = (dst, c24, finished)"
    and b: "c24 \<le> targetSize"
    by (simp_all add: n28_def c28_def n26_def c26_def n24_def c24_def dst_def finished_def)
  have s1: "selectBySize env sk1 targetSize = Returns (Inr dst, sk1)" if finished
    using that f by (simp add: selectBySize_def srcMap_def [symmetric])
  have s2: "selectBySize env sk1 targetSize = generateFillSpaceListBySize env sk1 dst c24 targetSize"
    if "\<not> finished"
    using that f by (simp add: selectBySize_def srcMap_def [symmetric])
  have c: "ConfigureBySize env sk targetSize password
             = (case selectBySize env sk1 targetSize of
                  Panics \<Rightarrow> Panics
                | Hangs \<Rightarrow> Hangs
                | Returns r \<Rightarrow>
                   (case fst r of
                      Inl e \<Rightarrow> Returns (Inl e, (snd r)\<lparr>configuring := 0\<rparr>)
                    | Inr resultList \<Rightarrow>
                        if length resultList = 0
                        then Returns (Inl ErrSpaceKeeperConfiguredNothing, (snd r)\<lparr>configuring := 0\<rparr>)
                        else
                          let sk1 = (snd r)\<lparr>queue := pq_Reset (queue (snd r))\<rparr>;
                              sk2 = requeue ((clear_using sk1)\<lparr>workSpaceList := []\<rparr>) resultList False;
                              sk3 = sk2\<lparr>queue := pq_Reset (queue sk2)\<rparr>;
                              wsiList = map (\<lambda>a. ws_Info (heap sk3 a)) resultList
                          in Returns (Inr wsiList, sk3\<lparr>configured := 1, configuring := 0\<rparr>)))"
    using assms h by (simp add: ConfigureBySize_def usableBitLength_def sk1_def)
  have e1: "ConfigureBySize env sk targetSize password
                = Returns (Inl ErrSpaceKeeperConfiguredNothing, sk1\<lparr>configuring := 0\<rparr>)"
    if "finished \<and> dst = []"
    using that s1 by (simp add: c)
  have e2: "\<exists>sk'. ConfigureBySize env sk targetSize password
                       = Returns (Inr (map (\<lambda>a. ws_Info (heap sk a)) dst), sk') \<and>
                     configured sk' = 1 \<and> configuring sk' = 0"
    if "finished \<and> dst \<noteq> []"
  proof -
    have i: "ws_Info (heap (requeue ((clear_using (sk1\<lparr>queue := q\<rparr>))\<lparr>workSpaceList := []\<rparr>) dst False) a)
               = ws_Info (heap sk a)" for q a
      using info_clear_using [of "sk1\<lparr>queue := q\<rparr>" a]
      by (simp add: info_requeue sk1_def)
    from that s1 show ?thesis
      by (simp add: c Let_def i)
  qed
  from f b s1 s2 e1 e2
  show "let sk1 = sk\<lparr>configuring := 1, configured := 0, walletLocked := False\<rparr>;
            srcMap = getIndexedWorkSpaces sk1;
            n28 = fit_count (BitLengthDiskSize env 28) targetSize 0 (candidates srcMap 28);
            c28 = int n28 * BitLengthDiskSize env 28;
            n26 = fit_count (BitLengthDiskSize env 26) targetSize c28 (candidates srcMap 26);
            c26 = c28 + int n26 * BitLengthDiskSize env 26;
            n24 = fit_count (BitLengthDiskSize env 24) targetSize c26 (candidates srcMap 24);
            c24 = c26 + int n24 * BitLengthDiskSize env 24;
            dst = take n28 (candidates srcMap 28) @ take n26 (candidates srcMap 26)
                    @ take n24 (candidates srcMap 24);
            finished = (c24 = targetSize \<or> targetSize - c24 < MinDiskSize env)
        in fillSpaceListBySize env [] srcMap 0 targetSize = (dst, c24, finished) \<and>
           c24 \<le> targetSize \<and>
           (finished \<longrightarrow> selectBySize env sk1 targetSize = Returns (Inr dst, sk1)) \<and>
           (\<not> finished \<longrightarrow>
              selectBySize env sk1 targetSize
                = generateFillSpaceListBySize env sk1 dst c24 targetSize) \<and>
           (finished \<and> dst = [] \<longrightarrow>
              ConfigureBySize env sk targetSize password
                = Returns (Inl ErrSpaceKeeperConfiguredNothing, sk1\<lparr>configuring := 0\<rparr>)) \<and>
           (finished \<and> dst \<noteq> [] \<longrightarrow>
              (\<exists>sk'. ConfigureBySize env sk targetSize password
                       = Returns (Inr (map (\<lambda>a. ws_Info (heap sk a)) dst), sk') \<and>
                     configured sk' = 1 \<and> configuring sk' = 0))"
    unfolding Let_def sk1_def [symmetric] srcMap_def [symmetric] n28_def [symmetric]
      c28_def [symmetric] n26_def [symmetric] c26_def [symmetric] n24_def [symmetric]
      c24_def [symmetric] dst_def [symmetric] finished_def [symmetric]
    by blast
next
  fix bl
  show "mset (candidates (getIndexedWorkSpaces
                  (sk\<lparr>configuring := 1, configured := 0, walletLocked := False\<rparr>)) bl)
            = mset (indexed_of sk bl)"
    by (simp add: candidates_indexed) (simp add: indexed_of_def)
qed

lemma ex3_indexed:
  "getIndexedWorkSpaces (ex_sk3\<lparr>configuring := c, configured := d, walletLocked := l\<rparr>)
     = [(24, [1, 0]), (28, [2])]"
  by (simp add: getIndexedWorkSpaces_def ex_sk3_def ex_ws3_def ex_defs pq_defs)

lemma ex3_guards: "\<not> started ex_sk3" "configuring ex_sk3 = 0"
  by (simp_all add: ex_sk3_def ex_sk2_def)

lemma ex3_sizes:
  "BitLengthDiskSize ex_env 28 = 160" "BitLengthDiskSize ex_env 26 = 40"
  "BitLengthDiskSize ex_env 24 = 10" "MinDiskSize ex_env = 10"
  by (simp_all add: ex_env_def)

lemma ex3_counts:
  "fit_count 160 175 0 [2] = 1" "fit_count 40 175 160 [] = 0"
  "fit_count 10 175 160 [Suc 0, 0] = 1"
  by (simp_all add: fit_count_def)

lemma ex3_heap: "heap ex_sk3 2 = ex_ws3" "heap ex_sk3 (Suc 0) = ex_ws2"
  by (simp_all add: ex_sk3_def)

theorem ConfigureBySize_fill_witness:
  "ConfigureBySize ex_env ex_sk3 5 ''pw''
     = Returns (Inl ErrConfigUnderSizeTarget, ex_sk3\<lparr>configured := 0\<rparr>) \<and>
   getIndexedWorkSpaces (ex_sk3\<lparr>configuring := 1, configured := 0, walletLocked := False\<rparr>)
     = [(24, [1, 0]), (28, [2])] \<and>
   fillSpaceListBySize ex_env [] [(24, [1, 0]), (28, [2])] 0 175 = ([2, 1], 170, True) \<and>
   (\<exists>sk'. ConfigureBySize ex_env ex_sk3 175 ''pw''
            = Returns (Inr [ws_Info ex_ws3, ws_Info ex_ws2], sk') \<and>
          configured sk' = 1 \<and> configuring sk' = 0)"
proof -
  have u: "(5::int) < BitLengthDiskSize ex_env 24" by (simp add: ex_env_def)
  have h: "\<not> (175::int) < BitLengthDiskSize ex_env 24 \<and> wallet_Unlock ex_env ''pw'' = None \<and>
           sizes_in_range ex_env 175"
    by (simp add: ex_env_def sizes_in_range_def MaxInt64_def)
  from ConfigureBySize_fill [OF ex3_guards, where env = ex_env and targetSize = 5
      and password = "''pw''", THEN conjunct1, THEN mp, OF u]
  have 1: "ConfigureBySize ex_env ex_sk3 5 ''pw''
     = Returns (Inl ErrConfigUnderSizeTarget, ex_sk3\<lparr>configured := 0\<rparr>)"
    by (simp add: ex_sk3_def ex_sk2_def)
  note T = ConfigureBySize_fill [OF ex3_guards, where env = ex_env and targetSize = 175
      and password = "''pw''", THEN conjunct2, THEN conjunct1, THEN mp, OF h,
      unfolded Let_def ex3_indexed]
  from T [THEN conjunct1]
  have 2: "fillSpaceListBySize ex_env [] [(24, [1, 0]), (28, [2])] 0 175 = ([2, 1], 170, True)"
    by (simp add: candidates_def ex3_sizes ex3_counts)
  from T [THEN conjunct2, THEN conjunct2, THEN conjunct2, THEN conjunct2, THEN conjunct2]
  have 3: "\<exists>sk'. ConfigureBySize ex_env ex_sk3 175 ''pw''
            = Returns (Inr [ws_Info ex_ws3, ws_Info ex_ws2], sk') \<and>
          configured sk' = 1 \<and> configuring sk' = 0"
    by (simp add: candidates_def ex3_sizes ex3_counts ex3_heap)
  from 1 ex3_indexed 2 3 show ?thesis by simp
qed

end
